theory Spec2Isabelle
  imports Complex_Main "HOL-Library.Log_Nat"
begin

section \<open>Numbers\<close>

text \<open>
  The C source computes with \<^verbatim>\<open>double\<close> and \<^verbatim>\<open>long\<close>. A \<^verbatim>\<open>long\<close> is modelled as
  \<^typ>\<open>int\<close>: the only arithmetic on a \<^verbatim>\<open>long\<close> is \<^verbatim>\<open>trials++\<close> and \<^verbatim>\<open>t++\<close>,
  executed only while the counter is below another \<^verbatim>\<open>long\<close>, so it never overflows.
  A \<^verbatim>\<open>double\<close> is modelled as \<^typ>\<open>real\<close>: every operation is the exact one, with no
  rounding, no infinities and no NaN. Where C would produce an infinity or a NaN (a zero
  denominator, \<^verbatim>\<open>pow\<close> outside its real domain) the model has HOL's total functions instead;
  the source excludes these cases by its own comments (``assumes that the discount rate and
  date calculations won't result in a denominator of 0''). What depends on rounding or on NaN
  is stated on a second embedding of the same code, over an arbitrary arithmetic, which
  follows the first.
\<close>

type_synonym double = real

text \<open>\<^verbatim>\<open>#define ABS(x) (((x)<0.0) ? (-(x)) : (x))\<close>\<close>

definition ABS :: "double \<Rightarrow> double" where
  "ABS x = (if x < 0 then - x else x)"

text \<open>
  \<^verbatim>\<open>pow\<close> of \<^verbatim>\<open>math.h\<close>, on the arguments where its value is a real number:
  \<^verbatim>\<open>pow(x, 0)\<close> is 1 for every \<^verbatim>\<open>x\<close>, a positive base is raised to any exponent, a zero base
  to a positive exponent is 0, and a negative base is raised to a whole exponent. Elsewhere
  (C: infinity or NaN) the value is HOL's \<^term>\<open>x powr y\<close>.
\<close>

definition pow_c :: "double \<Rightarrow> double \<Rightarrow> double" where
  "pow_c x y =
     (if y = 0 then 1
      else if 0 < x then x powr y
      else if x = 0 \<and> 0 < y then 0
      else if x < 0 \<and> y \<in> \<int> then x powi \<lfloor>y\<rfloor>
      else x powr y)"

section \<open>Present value\<close>

text \<open>
  The \<^verbatim>\<open>for\<close> loop of \<^verbatim>\<open>_compute_pv\<close>, with the loop variables \<^verbatim>\<open>t\<close>,
  \<^verbatim>\<open>discount_factor\<close>, \<^verbatim>\<open>prev_cumul_date\<close> and \<^verbatim>\<open>cumul_pv\<close> as arguments. The arrays are
  lists read at index \<^verbatim>\<open>t\<close>; the source assumes they hold \<^verbatim>\<open>num_cfs\<close> entries.
\<close>

function compute_pv_loop ::
  "double list \<Rightarrow> double list \<Rightarrow> double list \<Rightarrow> int \<Rightarrow> double \<Rightarrow> double \<Rightarrow>
   int \<Rightarrow> double \<Rightarrow> double \<Rightarrow> double \<Rightarrow> double" where
  "compute_pv_loop cfs dates libor num_cfs year_convention spread
       t discount_factor prev_cumul_date cumul_pv =
     (if t < num_cfs then
        let discount_rate = libor ! nat t + spread;
            discount_factor' =
              discount_factor /
                (1 + discount_rate * (dates ! nat t - prev_cumul_date) / year_convention);
            cumul_pv' = cumul_pv + cfs ! nat t * discount_factor'
        in compute_pv_loop cfs dates libor num_cfs year_convention spread
             (t + 1) discount_factor' (dates ! nat t) cumul_pv'
      else cumul_pv)"
  by pat_completeness auto
termination
  by (relation "measure (\<lambda>(cfs, dates, libor, num_cfs, yc, spread, t, df, prev, pv).
                  nat (num_cfs - t))") auto

declare compute_pv_loop.simps [simp del]

definition compute_pv ::
  "double list \<Rightarrow> double list \<Rightarrow> double list \<Rightarrow> int \<Rightarrow> bool \<Rightarrow> double \<Rightarrow> double \<Rightarrow>
   double \<Rightarrow> double" where
  "compute_pv cfs dates libor num_cfs is_clean accrued_interest year_convention spread =
     (if num_cfs > 0 then
        let cumul_pv = compute_pv_loop cfs dates libor num_cfs year_convention spread 0 1 0 0
        in if is_clean then cumul_pv - accrued_interest else cumul_pv
      else - 997)"

text \<open>
  The loop of \<^verbatim>\<open>_compute_pv_for_irr\<close>. The discount factor is recomputed for each entry from
  \<^verbatim>\<open>orig_date\<close>, so only \<^verbatim>\<open>t\<close> and \<^verbatim>\<open>cumul_pv\<close> are carried.
\<close>

function compute_pv_for_irr_loop ::
  "double list \<Rightarrow> double list \<Rightarrow> int \<Rightarrow> double \<Rightarrow> double \<Rightarrow> double \<Rightarrow>
   int \<Rightarrow> double \<Rightarrow> double" where
  "compute_pv_for_irr_loop cfs dates num_cfs year_convention orig_date irr t cumul_pv =
     (if t < num_cfs then
        let discount_factor =
              1 / pow_c (1 + irr) ((dates ! nat t - orig_date) / year_convention)
        in compute_pv_for_irr_loop cfs dates num_cfs year_convention orig_date irr
             (t + 1) (cumul_pv + cfs ! nat t * discount_factor)
      else cumul_pv)"
  by pat_completeness auto
termination
  by (relation "measure (\<lambda>(cfs, dates, num_cfs, yc, orig, irr, t, pv). nat (num_cfs - t))")
     auto

declare compute_pv_for_irr_loop.simps [simp del]

definition compute_pv_for_irr ::
  "double list \<Rightarrow> double list \<Rightarrow> int \<Rightarrow> bool \<Rightarrow> double \<Rightarrow> double \<Rightarrow> double" where
  "compute_pv_for_irr cfs dates num_cfs is_clean accrued_interest irr =
     (if num_cfs > 0 then
        let year_convention = 365;
            orig_date = dates ! 0;
            cumul_pv = compute_pv_for_irr_loop cfs dates num_cfs year_convention orig_date irr 0 0
        in if is_clean then cumul_pv - accrued_interest else cumul_pv
      else - 997)"

section \<open>The secant iteration\<close>

text \<open>
  \<^verbatim>\<open>_backsolve_cf\<close> and \<^verbatim>\<open>_backsolve_irr\<close> contain the same \<^verbatim>\<open>while\<close> loop, character
  for character, around two different present-value calls. The loop is modelled once, with
  the present-value function \<open>pv\<close> as an argument. Its variables are the fields of
  \<open>secant_state\<close>.
\<close>

record secant_state =
  x_n_minus_1 :: double
  x_n :: double
  f_n_minus_1 :: double
  f_n :: double
  trials :: int

text \<open>
  The loop leaves either through \<^verbatim>\<open>return -999.0\<close> inside the body or by its condition
  becoming false; either way the state at that moment is kept.
\<close>

datatype loop_exit = Return_in_body secant_state | Loop_end secant_state

function secant_while ::
  "(double \<Rightarrow> double) \<Rightarrow> double \<Rightarrow> double \<Rightarrow> int \<Rightarrow> secant_state \<Rightarrow> loop_exit" where
  "secant_while pv target_px res max_tries s =
     (if ABS (f_n s) > res \<and> trials s < max_tries then
        if f_n s = f_n_minus_1 s then Return_in_body s
        else
          let x_n_plus_1 = x_n s - f_n s * (x_n s - x_n_minus_1 s) / (f_n s - f_n_minus_1 s)
          in secant_while pv target_px res max_tries
               \<lparr>x_n_minus_1 = x_n s, x_n = x_n_plus_1,
                f_n_minus_1 = f_n s, f_n = target_px - pv x_n_plus_1,
                trials = trials s + 1\<rparr>
      else Loop_end s)"
  by pat_completeness auto
termination
  by (relation "measure (\<lambda>(pv, target_px, res, max_tries, s). nat (max_tries - trials s))")
     auto

declare secant_while.simps [simp del]

text \<open>The state before the loop: the seeds 0.06 and 0.06 + 0.0025 and their residuals.\<close>

definition secant_init :: "(double \<Rightarrow> double) \<Rightarrow> double \<Rightarrow> secant_state" where
  "secant_init pv target_px =
     (let x_n_minus_1 = 0.06;
          x_n = x_n_minus_1 + 0.0025
      in \<lparr>x_n_minus_1 = x_n_minus_1, x_n = x_n,
          f_n_minus_1 = target_px - pv x_n_minus_1, f_n = target_px - pv x_n,
          trials = 0\<rparr>)"

text \<open>
  The three \<^verbatim>\<open>return\<close> statements of a backsolver: \<^verbatim>\<open>return -999.0\<close> in the loop body,
  \<^verbatim>\<open>return -998.0\<close> after the loop, and \<^verbatim>\<open>return x_n\<close>.
\<close>

datatype solver_return = Return_neg999 | Return_neg998 | Return_x_n double

definition secant_solve ::
  "(double \<Rightarrow> double) \<Rightarrow> double \<Rightarrow> double \<Rightarrow> int \<Rightarrow> solver_return" where
  "secant_solve pv target_px res max_tries =
     (case secant_while pv target_px res max_tries (secant_init pv target_px) of
        Return_in_body s \<Rightarrow> Return_neg999
      | Loop_end s \<Rightarrow> if trials s \<ge> max_tries then Return_neg998 else Return_x_n (x_n s))"

text \<open>The \<^verbatim>\<open>double\<close> that the C function hands back.\<close>

fun returned_double :: "solver_return \<Rightarrow> double" where
  "returned_double Return_neg999 = - 999"
| "returned_double Return_neg998 = - 998"
| "returned_double (Return_x_n x) = x"

text \<open>\<^verbatim>\<open>_backsolve_cf\<close> and \<^verbatim>\<open>_backsolve_irr\<close>; the latter fixes \<^verbatim>\<open>target_px = 0.0\<close>.\<close>

definition backsolve_cf_core ::
  "double list \<Rightarrow> double list \<Rightarrow> double list \<Rightarrow> int \<Rightarrow> double \<Rightarrow> double \<Rightarrow> int \<Rightarrow>
   bool \<Rightarrow> double \<Rightarrow> double \<Rightarrow> double" where
  "backsolve_cf_core cfs dates libor num_cfs target_px res max_tries is_clean accrued_interest
       year_convention =
     returned_double
       (secant_solve
          (compute_pv cfs dates libor num_cfs is_clean accrued_interest year_convention)
          target_px res max_tries)"

definition backsolve_irr_core ::
  "double list \<Rightarrow> double list \<Rightarrow> int \<Rightarrow> double \<Rightarrow> int \<Rightarrow> bool \<Rightarrow> double \<Rightarrow> double" where
  "backsolve_irr_core cfs dates num_cfs res max_tries is_clean accrued_interest =
     returned_double
       (secant_solve (compute_pv_for_irr cfs dates num_cfs is_clean accrued_interest)
          0 res max_tries)"

section \<open>The entry points called from Ruby\<close>

text \<open>
  \<^verbatim>\<open>rb_raise\<close> leaves the function with an exception of a class and a message; otherwise
  the function returns \<^verbatim>\<open>rb_float_new(c_result)\<close>. \<^verbatim>\<open>TypeError\<close> is what
  \<^verbatim>\<open>NUM2DBL\<close> raises on the \<^verbatim>\<open>nil\<close> that \<^verbatim>\<open>rb_ary_entry\<close> gives beyond the end of an array.
  The \<^verbatim>\<open>Check_Type\<close> calls are the typing of the arguments, array elements are taken to be
  numbers, and \<^verbatim>\<open>malloc\<close> is taken to succeed.
\<close>

datatype rb_exception = RuntimeError string | ZeroDivError string | TypeError

datatype rb_value = Raise rb_exception | Float double

definition ary_entry_dbl :: "double list \<Rightarrow> int \<Rightarrow> rb_exception + double" where
  "ary_entry_dbl ary i =
     (if 0 \<le> i \<and> i < int (length ary) then Inr (ary ! nat i) else Inl TypeError)"

abbreviation dates_message :: string where
  "dates_message \<equiv>
     ''dates must contain a list of monotonically increasing values, starting at a value > 0''"

abbreviation empty_message :: string where
  "empty_message \<equiv> ''valid array of cash flows must have at least one entry''"

abbreviation zero_div_message :: string where
  "zero_div_message \<equiv> ''value doesn't change when yield is sensitized''"

abbreviation converge_message :: string where
  "converge_message \<equiv> ''failed to converge''"

text \<open>
  The copying loop of \<^verbatim>\<open>backsolve_cf\<close>: entry \<^verbatim>\<open>i\<close> of each Ruby array is converted and
  stored, in the order cash flow, date, date check, reference rate. The C buffers are the
  lists built so far.
\<close>

function copy_cf ::
  "double list \<Rightarrow> double list \<Rightarrow> double list \<Rightarrow> int \<Rightarrow> int \<Rightarrow> double \<Rightarrow>
   double list \<Rightarrow> double list \<Rightarrow> double list \<Rightarrow>
   rb_exception + (double list \<times> double list \<times> double list)" where
  "copy_cf cfs dates libor c_num_cfs i prev_date c_cfs c_dates c_libor =
     (if i < c_num_cfs then
        case ary_entry_dbl cfs i of
          Inl e \<Rightarrow> Inl e
        | Inr cf \<Rightarrow>
           (case ary_entry_dbl dates i of
              Inl e \<Rightarrow> Inl e
            | Inr d \<Rightarrow>
               if d \<le> prev_date then Inl (RuntimeError dates_message)
               else
                 (case ary_entry_dbl libor i of
                    Inl e \<Rightarrow> Inl e
                  | Inr l \<Rightarrow>
                      copy_cf cfs dates libor c_num_cfs (i + 1) d
                        (c_cfs @ [cf]) (c_dates @ [d]) (c_libor @ [l])))
      else Inr (c_cfs, c_dates, c_libor))"
  by pat_completeness auto
termination
  by (relation "measure (\<lambda>(cfs, dates, libor, n, i, prev, a, b, c). nat (n - i))") auto

declare copy_cf.simps [simp del]

text \<open>The decoding of \<^verbatim>\<open>c_result\<close> at the end of both entry points.\<close>

definition result_of_double :: "double \<Rightarrow> rb_value" where
  "result_of_double c_result =
     (if c_result = - 999 then Raise (ZeroDivError zero_div_message)
      else if c_result = - 998 then Raise (RuntimeError converge_message)
      else Float c_result)"

definition backsolve_cf ::
  "double list \<Rightarrow> double list \<Rightarrow> double list \<Rightarrow> int \<Rightarrow> double \<Rightarrow> double \<Rightarrow> int \<Rightarrow>
   bool \<Rightarrow> double \<Rightarrow> double \<Rightarrow> rb_value" where
  "backsolve_cf cfs dates libor num_cfs target_px res max_tries is_clean accrued_interest
       year_convention =
     (if num_cfs < 1 then Raise (RuntimeError empty_message)
      else
        case copy_cf cfs dates libor num_cfs 0 0 [] [] [] of
          Inl e \<Rightarrow> Raise e
        | Inr (c_cfs, c_dates, c_libor) \<Rightarrow>
            result_of_double
              (backsolve_cf_core c_cfs c_dates c_libor num_cfs target_px res max_tries
                 is_clean accrued_interest year_convention))"

text \<open>The copying loop of \<^verbatim>\<open>backsolve_irr\<close>, which has no reference rates.\<close>

function copy_irr ::
  "double list \<Rightarrow> double list \<Rightarrow> int \<Rightarrow> int \<Rightarrow> double \<Rightarrow> double list \<Rightarrow> double list \<Rightarrow>
   rb_exception + (double list \<times> double list)" where
  "copy_irr cfs dates c_num_cfs i prev_date c_cfs c_dates =
     (if i < c_num_cfs then
        case ary_entry_dbl cfs i of
          Inl e \<Rightarrow> Inl e
        | Inr cf \<Rightarrow>
           (case ary_entry_dbl dates i of
              Inl e \<Rightarrow> Inl e
            | Inr d \<Rightarrow>
               if d \<le> prev_date then Inl (RuntimeError dates_message)
               else copy_irr cfs dates c_num_cfs (i + 1) d (c_cfs @ [cf]) (c_dates @ [d]))
      else Inr (c_cfs, c_dates))"
  by pat_completeness auto
termination
  by (relation "measure (\<lambda>(cfs, dates, n, i, prev, a, b). nat (n - i))") auto

declare copy_irr.simps [simp del]

definition backsolve_irr ::
  "double list \<Rightarrow> double list \<Rightarrow> int \<Rightarrow> double \<Rightarrow> int \<Rightarrow> bool \<Rightarrow> double \<Rightarrow> rb_value" where
  "backsolve_irr cfs dates num_cfs res max_tries is_clean accrued_interest =
     (if num_cfs < 1 then Raise (RuntimeError empty_message)
      else
        case copy_irr cfs dates num_cfs 0 0 [] [] of
          Inl e \<Rightarrow> Raise e
        | Inr (c_cfs, c_dates) \<Rightarrow>
            result_of_double
              (backsolve_irr_core c_cfs c_dates num_cfs res max_tries is_clean
                 accrued_interest))"

section \<open>The discounting recurrence as the specification words it\<close>

text \<open>
  The stream is a list of entries (amount, day offset, reference rate). Starting with discount
  factor 1 and previous day offset 0, each entry in order divides the discount factor by
  \<open>1 + periodRate * (dayOffset - previousDayOffset) / yearConvention\<close> with
  \<open>periodRate = referenceRate + spread\<close> and accumulates \<open>amount * discountFactor\<close>; accrued
  interest is subtracted afterwards exactly when the price is clean.
\<close>

fun spread_recurrence ::
  "(double \<times> double \<times> double) list \<Rightarrow> double \<Rightarrow> double \<Rightarrow> double \<Rightarrow> double \<Rightarrow> double
   \<Rightarrow> double" where
  "spread_recurrence [] yearConvention spread discountFactor previousDayOffset pv = pv"
| "spread_recurrence ((amount, dayOffset, referenceRate) # entries) yearConvention spread
       discountFactor previousDayOffset pv =
     (let periodRate = referenceRate + spread;
          discountFactor' =
            discountFactor / (1 + periodRate * (dayOffset - previousDayOffset) / yearConvention)
      in spread_recurrence entries yearConvention spread discountFactor' dayOffset
           (pv + amount * discountFactor'))"

definition spec_pv_spread ::
  "(double \<times> double \<times> double) list \<Rightarrow> double \<Rightarrow> bool \<Rightarrow> double \<Rightarrow> double \<Rightarrow> double" where
  "spec_pv_spread entries yearConvention clean accruedInterest spread =
     (let pv = spread_recurrence entries yearConvention spread 1 0 0
      in if clean then pv - accruedInterest else pv)"

section \<open>The stream invariant as the specification words it\<close>

text \<open>
  Day offsets strictly increasing, the first one after day zero: every offset is greater than
  the one before it, starting from \<open>previous = 0\<close>.
\<close>

fun increasing_after :: "double \<Rightarrow> double list \<Rightarrow> bool" where
  "increasing_after previous [] = True"
| "increasing_after previous (dayOffset # dayOffsets) =
     (previous < dayOffset \<and> increasing_after dayOffset dayOffsets)"

section \<open>The same code over any arithmetic of doubles\<close>

text \<open>
  The functions once more, with nothing assumed about \<^verbatim>\<open>double\<close>: a type \<open>'d\<close> of values and the
  operations the source applies to them, passed as a record. An arithmetic with rounding,
  infinities and NaN (IEEE binary64, the one the compiled code runs on) is one such record, so
  what is proved for every record holds for it; in particular no comparison is assumed to be
  reflexive, total or transitive. \<open>d_lit\<close> is the value of a constant of the source text,
  \<open>d_lt\<close>, \<open>d_le\<close> and \<open>d_eq\<close> are the C comparisons \<^verbatim>\<open><\<close>, \<^verbatim>\<open><=\<close> and \<^verbatim>\<open>==\<close>
  (\<^verbatim>\<open>a > b\<close> is \<open>d_lt b a\<close>), and \<open>d_pow\<close> is \<^verbatim>\<open>pow\<close>. Every definition below is the
  definition of the same name above with the operations of \<^typ>\<open>real\<close> replaced by the fields
  of the record; counters and control flow are unchanged.
\<close>

record 'd arith =
  d_lit :: "real \<Rightarrow> 'd"
  d_add :: "'d \<Rightarrow> 'd \<Rightarrow> 'd"
  d_sub :: "'d \<Rightarrow> 'd \<Rightarrow> 'd"
  d_mul :: "'d \<Rightarrow> 'd \<Rightarrow> 'd"
  d_div :: "'d \<Rightarrow> 'd \<Rightarrow> 'd"
  d_neg :: "'d \<Rightarrow> 'd"
  d_lt :: "'d \<Rightarrow> 'd \<Rightarrow> bool"
  d_le :: "'d \<Rightarrow> 'd \<Rightarrow> bool"
  d_eq :: "'d \<Rightarrow> 'd \<Rightarrow> bool"
  d_pow :: "'d \<Rightarrow> 'd \<Rightarrow> 'd"

text \<open>\<^verbatim>\<open>#define ABS(x) (((x)<0.0) ? (-(x)) : (x))\<close>\<close>

definition fp_ABS :: "'d arith \<Rightarrow> 'd \<Rightarrow> 'd" where
  "fp_ABS A x = (if d_lt A x (d_lit A 0.0) then d_neg A x else x)"

text \<open>The loop and the body of \<^verbatim>\<open>_compute_pv\<close>.\<close>

function fp_compute_pv_loop ::
  "'d arith \<Rightarrow> 'd list \<Rightarrow> 'd list \<Rightarrow> 'd list \<Rightarrow> int \<Rightarrow> 'd \<Rightarrow> 'd \<Rightarrow> int \<Rightarrow> 'd \<Rightarrow> 'd \<Rightarrow> 'd
   \<Rightarrow> 'd" where
  "fp_compute_pv_loop A cfs dates libor num_cfs year_convention spread
       t discount_factor prev_cumul_date cumul_pv =
     (if t < num_cfs then
        let discount_rate = d_add A (libor ! nat t) spread;
            discount_factor' =
              d_div A discount_factor
                (d_add A (d_lit A 1.0)
                   (d_div A
                      (d_mul A discount_rate (d_sub A (dates ! nat t) prev_cumul_date))
                      year_convention));
            cumul_pv' = d_add A cumul_pv (d_mul A (cfs ! nat t) discount_factor')
        in fp_compute_pv_loop A cfs dates libor num_cfs year_convention spread
             (t + 1) discount_factor' (dates ! nat t) cumul_pv'
      else cumul_pv)"
  by pat_completeness auto
termination
  by (relation "measure (\<lambda>(A, cfs, dates, libor, num_cfs, yc, spread, t, df, prev, pv).
                  nat (num_cfs - t))") auto

declare fp_compute_pv_loop.simps [simp del]

definition fp_compute_pv ::
  "'d arith \<Rightarrow> 'd list \<Rightarrow> 'd list \<Rightarrow> 'd list \<Rightarrow> int \<Rightarrow> bool \<Rightarrow> 'd \<Rightarrow> 'd \<Rightarrow> 'd \<Rightarrow> 'd" where
  "fp_compute_pv A cfs dates libor num_cfs is_clean accrued_interest year_convention spread =
     (if num_cfs > 0 then
        let cumul_pv =
              fp_compute_pv_loop A cfs dates libor num_cfs year_convention spread
                0 (d_lit A 1.0) (d_lit A 0.0) (d_lit A 0.0)
        in if is_clean then d_sub A cumul_pv accrued_interest else cumul_pv
      else d_lit A (- 997.0))"

text \<open>The loop and the body of \<^verbatim>\<open>_compute_pv_for_irr\<close>.\<close>

function fp_compute_pv_for_irr_loop ::
  "'d arith \<Rightarrow> 'd list \<Rightarrow> 'd list \<Rightarrow> int \<Rightarrow> 'd \<Rightarrow> 'd \<Rightarrow> 'd \<Rightarrow> int \<Rightarrow> 'd \<Rightarrow> 'd" where
  "fp_compute_pv_for_irr_loop A cfs dates num_cfs year_convention orig_date irr t cumul_pv =
     (if t < num_cfs then
        let discount_factor =
              d_div A (d_lit A 1.0)
                (d_pow A (d_add A (d_lit A 1.0) irr)
                   (d_div A (d_sub A (dates ! nat t) orig_date) year_convention))
        in fp_compute_pv_for_irr_loop A cfs dates num_cfs year_convention orig_date irr
             (t + 1) (d_add A cumul_pv (d_mul A (cfs ! nat t) discount_factor))
      else cumul_pv)"
  by pat_completeness auto
termination
  by (relation "measure (\<lambda>(A, cfs, dates, num_cfs, yc, orig, irr, t, pv). nat (num_cfs - t))")
     auto

declare fp_compute_pv_for_irr_loop.simps [simp del]

definition fp_compute_pv_for_irr ::
  "'d arith \<Rightarrow> 'd list \<Rightarrow> 'd list \<Rightarrow> int \<Rightarrow> bool \<Rightarrow> 'd \<Rightarrow> 'd \<Rightarrow> 'd" where
  "fp_compute_pv_for_irr A cfs dates num_cfs is_clean accrued_interest irr =
     (if num_cfs > 0 then
        let year_convention = d_lit A 365.0;
            orig_date = dates ! 0;
            cumul_pv =
              fp_compute_pv_for_irr_loop A cfs dates num_cfs year_convention orig_date irr
                0 (d_lit A 0.0)
        in if is_clean then d_sub A cumul_pv accrued_interest else cumul_pv
      else d_lit A (- 997.0))"

text \<open>
  The \<^verbatim>\<open>while\<close> loop shared by \<^verbatim>\<open>_backsolve_cf\<close> and \<^verbatim>\<open>_backsolve_irr\<close>: its variables,
  its two ways out, and the loop with the condition \<^verbatim>\<open>ABS(f_n) > res && trials < max_tries\<close>
  and the test \<^verbatim>\<open>f_n == f_n_minus_1\<close> as the source writes them. When \<^verbatim>\<open>ABS(f_n)\<close> is a NaN
  the comparison is false and the loop ends.
\<close>

record 'd fp_state =
  fp_x_n_minus_1 :: 'd
  fp_x_n :: 'd
  fp_f_n_minus_1 :: 'd
  fp_f_n :: 'd
  fp_trials :: int

datatype 'd fp_exit = Fp_return_in_body "'d fp_state" | Fp_loop_end "'d fp_state"

function fp_secant_while ::
  "'d arith \<Rightarrow> ('d \<Rightarrow> 'd) \<Rightarrow> 'd \<Rightarrow> 'd \<Rightarrow> int \<Rightarrow> 'd fp_state \<Rightarrow> 'd fp_exit" where
  "fp_secant_while A pv target_px res max_tries s =
     (if d_lt A res (fp_ABS A (fp_f_n s)) \<and> fp_trials s < max_tries then
        if d_eq A (fp_f_n s) (fp_f_n_minus_1 s) then Fp_return_in_body s
        else
          let x_n_plus_1 =
                d_sub A (fp_x_n s)
                  (d_div A
                     (d_mul A (fp_f_n s) (d_sub A (fp_x_n s) (fp_x_n_minus_1 s)))
                     (d_sub A (fp_f_n s) (fp_f_n_minus_1 s)))
          in fp_secant_while A pv target_px res max_tries
               \<lparr>fp_x_n_minus_1 = fp_x_n s, fp_x_n = x_n_plus_1,
                fp_f_n_minus_1 = fp_f_n s, fp_f_n = d_sub A target_px (pv x_n_plus_1),
                fp_trials = fp_trials s + 1\<rparr>
      else Fp_loop_end s)"
  by pat_completeness auto
termination
  by (relation "measure (\<lambda>(A, pv, target_px, res, max_tries, s).
                  nat (max_tries - fp_trials s))") auto

declare fp_secant_while.simps [simp del]

text \<open>
  The state before the loop. The seeds are the constant \<^verbatim>\<open>0.06\<close> and the sum
  \<^verbatim>\<open>x_n_minus_1 + 0.0025\<close>, both as the arithmetic gives them.
\<close>

definition fp_secant_init :: "'d arith \<Rightarrow> ('d \<Rightarrow> 'd) \<Rightarrow> 'd \<Rightarrow> 'd fp_state" where
  "fp_secant_init A pv target_px =
     (let x_n_minus_1 = d_lit A 0.06;
          x_n = d_add A x_n_minus_1 (d_lit A 0.0025)
      in \<lparr>fp_x_n_minus_1 = x_n_minus_1, fp_x_n = x_n,
          fp_f_n_minus_1 = d_sub A target_px (pv x_n_minus_1),
          fp_f_n = d_sub A target_px (pv x_n),
          fp_trials = 0\<rparr>)"

text \<open>The three \<^verbatim>\<open>return\<close> statements and the \<^verbatim>\<open>double\<close> each hands back.\<close>

datatype 'd fp_return = Fp_neg999 | Fp_neg998 | Fp_x_n 'd

definition fp_secant_solve ::
  "'d arith \<Rightarrow> ('d \<Rightarrow> 'd) \<Rightarrow> 'd \<Rightarrow> 'd \<Rightarrow> int \<Rightarrow> 'd fp_return" where
  "fp_secant_solve A pv target_px res max_tries =
     (case fp_secant_while A pv target_px res max_tries (fp_secant_init A pv target_px) of
        Fp_return_in_body s \<Rightarrow> Fp_neg999
      | Fp_loop_end s \<Rightarrow> if fp_trials s \<ge> max_tries then Fp_neg998 else Fp_x_n (fp_x_n s))"

fun fp_returned_double :: "'d arith \<Rightarrow> 'd fp_return \<Rightarrow> 'd" where
  "fp_returned_double A Fp_neg999 = d_lit A (- 999.0)"
| "fp_returned_double A Fp_neg998 = d_lit A (- 998.0)"
| "fp_returned_double A (Fp_x_n x) = x"

text \<open>\<^verbatim>\<open>_backsolve_cf\<close> and \<^verbatim>\<open>_backsolve_irr\<close>.\<close>

definition fp_backsolve_cf_core ::
  "'d arith \<Rightarrow> 'd list \<Rightarrow> 'd list \<Rightarrow> 'd list \<Rightarrow> int \<Rightarrow> 'd \<Rightarrow> 'd \<Rightarrow> int \<Rightarrow> bool \<Rightarrow> 'd \<Rightarrow> 'd
   \<Rightarrow> 'd" where
  "fp_backsolve_cf_core A cfs dates libor num_cfs target_px res max_tries is_clean
       accrued_interest year_convention =
     fp_returned_double A
       (fp_secant_solve A
          (fp_compute_pv A cfs dates libor num_cfs is_clean accrued_interest year_convention)
          target_px res max_tries)"

definition fp_backsolve_irr_core ::
  "'d arith \<Rightarrow> 'd list \<Rightarrow> 'd list \<Rightarrow> int \<Rightarrow> 'd \<Rightarrow> int \<Rightarrow> bool \<Rightarrow> 'd \<Rightarrow> 'd" where
  "fp_backsolve_irr_core A cfs dates num_cfs res max_tries is_clean accrued_interest =
     fp_returned_double A
       (fp_secant_solve A (fp_compute_pv_for_irr A cfs dates num_cfs is_clean accrued_interest)
          (d_lit A 0.0) res max_tries)"

text \<open>
  The entry points: the copying loops with the check \<^verbatim>\<open>c_dates[i] <= prev_date\<close>, the
  decoding \<^verbatim>\<open>c_result == -999.0\<close>, \<^verbatim>\<open>c_result == -998.0\<close>, and the two functions called from
  Ruby.
\<close>

datatype 'd fp_value = Fp_raise rb_exception | Fp_float 'd

definition fp_ary_entry :: "'d list \<Rightarrow> int \<Rightarrow> rb_exception + 'd" where
  "fp_ary_entry ary i =
     (if 0 \<le> i \<and> i < int (length ary) then Inr (ary ! nat i) else Inl TypeError)"

function fp_copy_cf ::
  "'d arith \<Rightarrow> 'd list \<Rightarrow> 'd list \<Rightarrow> 'd list \<Rightarrow> int \<Rightarrow> int \<Rightarrow> 'd \<Rightarrow>
   'd list \<Rightarrow> 'd list \<Rightarrow> 'd list \<Rightarrow> rb_exception + ('d list \<times> 'd list \<times> 'd list)" where
  "fp_copy_cf A cfs dates libor c_num_cfs i prev_date c_cfs c_dates c_libor =
     (if i < c_num_cfs then
        case fp_ary_entry cfs i of
          Inl e \<Rightarrow> Inl e
        | Inr cf \<Rightarrow>
           (case fp_ary_entry dates i of
              Inl e \<Rightarrow> Inl e
            | Inr d \<Rightarrow>
               if d_le A d prev_date then Inl (RuntimeError dates_message)
               else
                 (case fp_ary_entry libor i of
                    Inl e \<Rightarrow> Inl e
                  | Inr l \<Rightarrow>
                      fp_copy_cf A cfs dates libor c_num_cfs (i + 1) d
                        (c_cfs @ [cf]) (c_dates @ [d]) (c_libor @ [l])))
      else Inr (c_cfs, c_dates, c_libor))"
  by pat_completeness auto
termination
  by (relation "measure (\<lambda>(A, cfs, dates, libor, n, i, prev, a, b, c). nat (n - i))") auto

declare fp_copy_cf.simps [simp del]

definition fp_result_of_double :: "'d arith \<Rightarrow> 'd \<Rightarrow> 'd fp_value" where
  "fp_result_of_double A c_result =
     (if d_eq A c_result (d_lit A (- 999.0)) then Fp_raise (ZeroDivError zero_div_message)
      else if d_eq A c_result (d_lit A (- 998.0)) then Fp_raise (RuntimeError converge_message)
      else Fp_float c_result)"

definition fp_backsolve_cf ::
  "'d arith \<Rightarrow> 'd list \<Rightarrow> 'd list \<Rightarrow> 'd list \<Rightarrow> int \<Rightarrow> 'd \<Rightarrow> 'd \<Rightarrow> int \<Rightarrow> bool \<Rightarrow> 'd \<Rightarrow> 'd
   \<Rightarrow> 'd fp_value" where
  "fp_backsolve_cf A cfs dates libor num_cfs target_px res max_tries is_clean accrued_interest
       year_convention =
     (if num_cfs < 1 then Fp_raise (RuntimeError empty_message)
      else
        case fp_copy_cf A cfs dates libor num_cfs 0 (d_lit A 0.0) [] [] [] of
          Inl e \<Rightarrow> Fp_raise e
        | Inr (c_cfs, c_dates, c_libor) \<Rightarrow>
            fp_result_of_double A
              (fp_backsolve_cf_core A c_cfs c_dates c_libor num_cfs target_px res max_tries
                 is_clean accrued_interest year_convention))"

function fp_copy_irr ::
  "'d arith \<Rightarrow> 'd list \<Rightarrow> 'd list \<Rightarrow> int \<Rightarrow> int \<Rightarrow> 'd \<Rightarrow> 'd list \<Rightarrow> 'd list \<Rightarrow>
   rb_exception + ('d list \<times> 'd list)" where
  "fp_copy_irr A cfs dates c_num_cfs i prev_date c_cfs c_dates =
     (if i < c_num_cfs then
        case fp_ary_entry cfs i of
          Inl e \<Rightarrow> Inl e
        | Inr cf \<Rightarrow>
           (case fp_ary_entry dates i of
              Inl e \<Rightarrow> Inl e
            | Inr d \<Rightarrow>
               if d_le A d prev_date then Inl (RuntimeError dates_message)
               else fp_copy_irr A cfs dates c_num_cfs (i + 1) d (c_cfs @ [cf]) (c_dates @ [d]))
      else Inr (c_cfs, c_dates))"
  by pat_completeness auto
termination
  by (relation "measure (\<lambda>(A, cfs, dates, n, i, prev, a, b). nat (n - i))") auto

declare fp_copy_irr.simps [simp del]

definition fp_backsolve_irr ::
  "'d arith \<Rightarrow> 'd list \<Rightarrow> 'd list \<Rightarrow> int \<Rightarrow> 'd \<Rightarrow> int \<Rightarrow> bool \<Rightarrow> 'd \<Rightarrow> 'd fp_value" where
  "fp_backsolve_irr A cfs dates num_cfs res max_tries is_clean accrued_interest =
     (if num_cfs < 1 then Fp_raise (RuntimeError empty_message)
      else
        case fp_copy_irr A cfs dates num_cfs 0 (d_lit A 0.0) [] [] of
          Inl e \<Rightarrow> Fp_raise e
        | Inr (c_cfs, c_dates) \<Rightarrow>
            fp_result_of_double A
              (fp_backsolve_irr_core A c_cfs c_dates num_cfs res max_tries is_clean
                 accrued_interest))"

section \<open>Two arithmetics\<close>

text \<open>The arithmetic of the real numbers, which the first model has built in.\<close>

definition exact :: "real arith" where
  "exact =
     \<lparr>d_lit = (\<lambda>r. r), d_add = (+), d_sub = (-), d_mul = (*), d_div = (/), d_neg = uminus,
      d_lt = (<), d_le = (\<le>), d_eq = (=), d_pow = pow_c\<rparr>"

text \<open>
  Binary64 as far as rounding goes: every operation returns the real result rounded to 53
  significant bits, to the nearest such number and to the one with an even last bit when two
  are equally near. For a nonzero \<open>x\<close> with \<^verbatim>\<open>2^k <= |x| < 2^(k+1)\<close> the representable numbers
  around \<open>x\<close> are the multiples of \<^verbatim>\<open>2^(k-52)\<close>. The exponent is not bounded and there is no
  infinity and no NaN, so this arithmetic is the machine's on those computations in which
  every intermediate result is zero or a normal number (\<^verbatim>\<open>2^-1022 <= |x| < 2^1024\<close>) and no
  divisor is zero. \<^verbatim>\<open>pow\<close> of \<^verbatim>\<open>math.h\<close> need not be correctly rounded; the field \<open>d_pow\<close> is
  filled with the correctly rounded value and nothing below evaluates it.
\<close>

definition round_ties_even :: "real \<Rightarrow> int" where
  "round_ties_even r =
     (let f = \<lfloor>r\<rfloor>; d = r - of_int f
      in if d < 1 / 2 then f else if 1 / 2 < d then f + 1 else if even f then f else f + 1)"

text \<open>
  The \<open>k\<close> with \<^verbatim>\<open>2^k <= |x| < 2^(k+1)\<close>, for \<open>x\<close> other than zero, from the number of binary
  digits of the whole part of \<open>|x|\<close> or, when \<open>|x| < 1\<close>, of \<open>1 / |x|\<close> rounded up, less one.
\<close>

definition binary_exponent :: "real \<Rightarrow> int" where
  "binary_exponent x =
     (if 1 \<le> \<bar>x\<bar> then bitlen \<lfloor>\<bar>x\<bar>\<rfloor> - 1 else - bitlen (\<lceil>1 / \<bar>x\<bar>\<rceil> - 1))"

definition binary64_round :: "real \<Rightarrow> real" where
  "binary64_round x =
     (if x = 0 then 0
      else let e = binary_exponent x - 52
           in of_int (round_ties_even (x / 2 powi e)) * 2 powi e)"

definition binary64 :: "real arith" where
  "binary64 =
     \<lparr>d_lit = binary64_round,
      d_add = (\<lambda>x y. binary64_round (x + y)),
      d_sub = (\<lambda>x y. binary64_round (x - y)),
      d_mul = (\<lambda>x y. binary64_round (x * y)),
      d_div = (\<lambda>x y. binary64_round (x / y)),
      d_neg = uminus,
      d_lt = (<), d_le = (\<le>), d_eq = (=),
      d_pow = (\<lambda>x y. binary64_round (pow_c x y))\<rparr>"

section \<open>The sentinel constants\<close>

text \<open>
  What the decoding in the entry points needs of the arithmetic: each of the constants
  \<^verbatim>\<open>-999.0\<close> and \<^verbatim>\<open>-998.0\<close> compares equal to itself, and \<^verbatim>\<open>-998.0\<close> does not compare equal
  to \<^verbatim>\<open>-999.0\<close>. Both are small whole numbers, so binary64 represents them exactly and this
  holds there.
\<close>

definition sentinels_compare :: "'d arith \<Rightarrow> bool" where
  "sentinels_compare A =
     (d_eq A (d_lit A (- 999.0)) (d_lit A (- 999.0)) \<and>
      d_eq A (d_lit A (- 998.0)) (d_lit A (- 998.0)) \<and>
      \<not> d_eq A (d_lit A (- 998.0)) (d_lit A (- 999.0)))"

section \<open>From the model over the reals to the exact arithmetic\<close>

text \<open>The states, exits, returns and results of the first model, as those of the second.\<close>

definition exact_state :: "secant_state \<Rightarrow> double fp_state" where
  "exact_state s =
     \<lparr>fp_x_n_minus_1 = x_n_minus_1 s, fp_x_n = x_n s, fp_f_n_minus_1 = f_n_minus_1 s,
      fp_f_n = f_n s, fp_trials = trials s\<rparr>"

fun exact_exit :: "loop_exit \<Rightarrow> double fp_exit" where
  "exact_exit (Return_in_body s) = Fp_return_in_body (exact_state s)"
| "exact_exit (Loop_end s) = Fp_loop_end (exact_state s)"

fun exact_return :: "solver_return \<Rightarrow> double fp_return" where
  "exact_return Return_neg999 = Fp_neg999"
| "exact_return Return_neg998 = Fp_neg998"
| "exact_return (Return_x_n x) = Fp_x_n x"

fun exact_value :: "rb_value \<Rightarrow> double fp_value" where
  "exact_value (Raise e) = Fp_raise e"
| "exact_value (Float x) = Fp_float x"

section \<open>The discounting loops\<close>

text \<open>
  The loop of \<^verbatim>\<open>_compute_pv\<close> from index \<open>t\<close> on is the recurrence over the entries from
  \<open>t\<close> on; the loop of \<^verbatim>\<open>_compute_pv_for_irr\<close> adds the terms from \<open>t\<close> on.
\<close>

lemma compute_pv_loop_recurrence:
  "0 \<le> t \<Longrightarrow> t \<le> num_cfs \<Longrightarrow> length cfs = nat num_cfs \<Longrightarrow>
   length dates = nat num_cfs \<Longrightarrow> length libor = nat num_cfs \<Longrightarrow>
   compute_pv_loop cfs dates libor num_cfs yc spread t df prev pv =
   spread_recurrence (drop (nat t) (zip cfs (zip dates libor))) yc spread df prev pv"
proof (induction cfs dates libor num_cfs yc spread t df prev pv rule: compute_pv_loop.induct)
  case (1 cfs dates libor num_cfs yc spread t df prev pv)
  show ?case
  proof (cases "t < num_cfs")
    case False
    with "1.prems" have "t = num_cfs" by simp
    with "1.prems" show ?thesis
      by (subst compute_pv_loop.simps) simp
  next
    case True
    let ?i = "nat t"
    have i: "?i < length (zip cfs (zip dates libor))"
      using True "1.prems" by simp
    have d: "drop ?i (zip cfs (zip dates libor)) =
             (cfs ! ?i, dates ! ?i, libor ! ?i) # drop (nat (t + 1)) (zip cfs (zip dates libor))"
      using Cons_nth_drop_Suc [OF i, symmetric] i "1.prems"
      by (simp add: nat_add_distrib)
    show ?thesis
      using "1.IH" [OF True refl refl refl] True "1.prems"
      by (subst compute_pv_loop.simps) (simp add: d Let_def)
  qed
qed

lemma compute_pv_for_irr_loop_sum:
  "0 \<le> t \<Longrightarrow> t \<le> num_cfs \<Longrightarrow>
   compute_pv_for_irr_loop cfs dates num_cfs yc orig irr t pv =
   pv + (\<Sum>k = nat t..<nat num_cfs. cfs ! k * (1 / pow_c (1 + irr) ((dates ! k - orig) / yc)))"
proof (induction cfs dates num_cfs yc orig irr t pv rule: compute_pv_for_irr_loop.induct)
  case (1 cfs dates num_cfs yc orig irr t pv)
  show ?case
  proof (cases "t < num_cfs")
    case False
    with "1.prems" show ?thesis
      by (subst compute_pv_for_irr_loop.simps) simp
  next
    case True
    have n: "nat (t + 1) = Suc (nat t)" "nat t < nat num_cfs"
      using True "1.prems" by simp_all
    show ?thesis
      using "1.IH" [OF True refl] True "1.prems" n
      by (subst compute_pv_for_irr_loop.simps)
         (simp add: Let_def sum.atLeast_Suc_lessThan [of "nat t" "nat num_cfs"])
  qed
qed

text \<open>A stream whose amounts are all zero has a present value that no trial rate moves.\<close>

lemma compute_pv_loop_zero:
  "0 \<le> t \<Longrightarrow> \<forall>i. nat t \<le> i \<and> i < nat num_cfs \<longrightarrow> cfs ! i = 0 \<Longrightarrow>
   compute_pv_loop cfs dates libor num_cfs yc spread t df prev pv = pv"
proof (induction cfs dates libor num_cfs yc spread t df prev pv rule: compute_pv_loop.induct)
  case (1 cfs dates libor num_cfs yc spread t df prev pv)
  show ?case
  proof (cases "t < num_cfs")
    case False
    then show ?thesis
      by (subst compute_pv_loop.simps) simp
  next
    case True
    have z: "cfs ! nat t = 0"
      using True "1.prems" by simp
    have "compute_pv_loop cfs dates libor num_cfs yc spread (t + 1)
            (df / (1 + (libor ! nat t + spread) * (dates ! nat t - prev) / yc)) (dates ! nat t)
            (pv + cfs ! nat t * (df / (1 + (libor ! nat t + spread) * (dates ! nat t - prev) / yc)))
          = pv + cfs ! nat t * (df / (1 + (libor ! nat t + spread) * (dates ! nat t - prev) / yc))"
      using True "1.prems" by (intro "1.IH" [OF True refl refl refl]) auto
    then show ?thesis
      using True z by (subst compute_pv_loop.simps) (simp add: Let_def)
  qed
qed

lemma compute_pv_zero_stream:
  "0 < num_cfs \<Longrightarrow> cfs = replicate (nat num_cfs) 0 \<Longrightarrow>
   compute_pv cfs dates libor num_cfs is_clean ai yc x = - (if is_clean then ai else 0)"
  by (simp add: compute_pv_def compute_pv_loop_zero)

lemma compute_pv_for_irr_zero_stream:
  "0 < num_cfs \<Longrightarrow> cfs = replicate (nat num_cfs) 0 \<Longrightarrow>
   compute_pv_for_irr cfs dates num_cfs is_clean ai x = - (if is_clean then ai else 0)"
  using compute_pv_for_irr_loop_sum [of 0 num_cfs cfs dates 365 "dates ! 0" x 0]
  by (simp add: compute_pv_for_irr_def)

text \<open>
  One entry under the yield model: the only exponent is \<open>(dates[0] - dates[0]) / 365 = 0\<close>.
\<close>

lemma compute_pv_for_irr_single:
  "compute_pv_for_irr cfs dates 1 is_clean ai y = cfs ! 0 - (if is_clean then ai else 0)"
  by (simp add: compute_pv_for_irr_def compute_pv_for_irr_loop.simps pow_c_def)

text \<open>The loops unrolled on streams of one and two entries.\<close>

lemma compute_pv_1:
  "compute_pv [c] [d] [l] 1 is_clean ai yc x =
     c * (1 / (1 + (l + x) * d / yc)) - (if is_clean then ai else 0)"
  by (simp add: compute_pv_def compute_pv_loop.simps Let_def)

lemma compute_pv_2:
  "compute_pv [c1, c2] [d1, d2] [l1, l2] 2 is_clean ai yc x =
     c1 * (1 / (1 + (l1 + x) * d1 / yc))
     + c2 * (1 / (1 + (l1 + x) * d1 / yc) / (1 + (l2 + x) * (d2 - d1) / yc))
     - (if is_clean then ai else 0)"
  by (simp add: compute_pv_def compute_pv_loop.simps Let_def)

lemma compute_pv_for_irr_zero2:
  "compute_pv_for_irr [0, 0] [d1, d2] 2 is_clean ai x = - (if is_clean then ai else 0)"
  by (simp add: compute_pv_for_irr_def compute_pv_for_irr_loop.simps)

section \<open>The secant loop, one step at a time\<close>

lemma ABS_abs: "ABS x = \<bar>x\<bar>"
  by (simp add: ABS_def)

lemma secant_while_end:
  "\<not> (ABS (f_n s) > res \<and> trials s < max_tries) \<Longrightarrow>
   secant_while pv target_px res max_tries s = Loop_end s"
  by (subst secant_while.simps) auto

lemma secant_while_degenerate:
  "ABS (f_n s) > res \<Longrightarrow> trials s < max_tries \<Longrightarrow> f_n s = f_n_minus_1 s \<Longrightarrow>
   secant_while pv target_px res max_tries s = Return_in_body s"
  by (subst secant_while.simps) simp

lemma secant_while_step:
  "ABS (f_n s) > res \<Longrightarrow> trials s < max_tries \<Longrightarrow> f_n s \<noteq> f_n_minus_1 s \<Longrightarrow>
   secant_while pv target_px res max_tries s =
   secant_while pv target_px res max_tries
     \<lparr>x_n_minus_1 = x_n s,
      x_n = x_n s - f_n s * (x_n s - x_n_minus_1 s) / (f_n s - f_n_minus_1 s),
      f_n_minus_1 = f_n s,
      f_n = target_px - pv (x_n s - f_n s * (x_n s - x_n_minus_1 s) / (f_n s - f_n_minus_1 s)),
      trials = trials s + 1\<rparr>"
  by (subst secant_while.simps) (simp add: Let_def)

lemma secant_init_sel [simp]:
  "x_n_minus_1 (secant_init pv target_px) = 6 / 100"
  "x_n (secant_init pv target_px) = 1 / 16"
  "f_n_minus_1 (secant_init pv target_px) = target_px - pv (6 / 100)"
  "f_n (secant_init pv target_px) = target_px - pv (1 / 16)"
  "trials (secant_init pv target_px) = 0"
  by (simp_all add: secant_init_def Let_def)

text \<open>
  Along the loop \<^verbatim>\<open>trials\<close> never decreases, the body is entered only below the cap, and
  the condition fails at the latest when \<^verbatim>\<open>trials\<close> reaches it.
\<close>

lemma secant_while_trials:
  "case secant_while pv target_px res max_tries s of
     Return_in_body s' \<Rightarrow> trials s \<le> trials s' \<and> trials s' < max_tries
   | Loop_end s' \<Rightarrow> trials s \<le> trials s' \<and> trials s' \<le> max (trials s) max_tries"
proof (induction pv target_px res max_tries s rule: secant_while.induct)
  case (1 pv target_px res max_tries s)
  show ?case
  proof (cases "ABS (f_n s) > res \<and> trials s < max_tries")
    case False
    then show ?thesis
      by (simp add: secant_while_end)
  next
    case True
    show ?thesis
    proof (cases "f_n s = f_n_minus_1 s")
      case eq: True
      with True show ?thesis
        by (simp add: secant_while_degenerate)
    next
      case ne: False
      from "1.IH" [OF True ne refl] True ne show ?thesis
        by (simp add: secant_while_step split: loop_exit.splits)
    qed
  qed
qed

text \<open>A loop that ends with \<^verbatim>\<open>trials\<close> unchanged has not run its body.\<close>

lemma secant_while_no_iteration:
  assumes "secant_while pv target_px res max_tries s = Loop_end s'" "trials s' = trials s"
  shows "s' = s \<and> \<not> (ABS (f_n s) > res \<and> trials s < max_tries)"
proof (cases "ABS (f_n s) > res \<and> trials s < max_tries")
  case False
  with assms show ?thesis
    by (simp add: secant_while_end)
next
  case True
  show ?thesis
  proof (cases "f_n s = f_n_minus_1 s")
    case eq: True
    with True assms show ?thesis
      by (simp add: secant_while_degenerate)
  next
    case ne: False
    let ?s1 = "\<lparr>x_n_minus_1 = x_n s,
      x_n = x_n s - f_n s * (x_n s - x_n_minus_1 s) / (f_n s - f_n_minus_1 s),
      f_n_minus_1 = f_n s,
      f_n = target_px - pv (x_n s - f_n s * (x_n s - x_n_minus_1 s) / (f_n s - f_n_minus_1 s)),
      trials = trials s + 1\<rparr>"
    have "secant_while pv target_px res max_tries ?s1 = Loop_end s'"
      using True ne assms(1) by (simp add: secant_while_step)
    with secant_while_trials [where pv = pv and target_px = target_px and res = res
        and max_tries = max_tries and s = ?s1]
    have "trials s + 1 \<le> trials s'"
      by simp
    with assms(2) show ?thesis
      by simp
  qed
qed

section \<open>The copying loops and the decoding of the result\<close>

text \<open>
  On arrays of exactly \<^verbatim>\<open>num_cfs\<close> entries the copying loop reaches the end exactly when the
  day offsets are strictly increasing from above 0, and then the buffers are the arrays.
\<close>

lemma copy_cf_checks:
  "0 \<le> i \<Longrightarrow> i \<le> n \<Longrightarrow> length cfs = nat n \<Longrightarrow> length dates = nat n \<Longrightarrow>
   length libor = nat n \<Longrightarrow>
   copy_cf cfs dates libor n i prev c_cfs c_dates c_libor =
     (if increasing_after prev (drop (nat i) dates)
      then Inr (c_cfs @ drop (nat i) cfs, c_dates @ drop (nat i) dates,
                c_libor @ drop (nat i) libor)
      else Inl (RuntimeError dates_message))"
proof (induction cfs dates libor n i prev c_cfs c_dates c_libor rule: copy_cf.induct)
  case (1 cfs dates libor n i prev c_cfs c_dates c_libor)
  show ?case
  proof (cases "i < n")
    case False
    with "1.prems" show ?thesis
      by (subst copy_cf.simps) simp
  next
    case True
    let ?k = "nat i"
    have k: "?k < length cfs" "?k < length dates" "?k < length libor" "nat (i + 1) = Suc ?k"
      using True "1.prems" by simp_all
    have e: "ary_entry_dbl cfs i = Inr (cfs ! ?k)" "ary_entry_dbl dates i = Inr (dates ! ?k)"
      "ary_entry_dbl libor i = Inr (libor ! ?k)"
      using True "1.prems" by (simp_all add: ary_entry_dbl_def)
    have d: "drop ?k cfs = cfs ! ?k # drop (Suc ?k) cfs"
      "drop ?k dates = dates ! ?k # drop (Suc ?k) dates"
      "drop ?k libor = libor ! ?k # drop (Suc ?k) libor"
      using k by (simp_all add: Cons_nth_drop_Suc)
    show ?thesis
    proof (cases "dates ! ?k \<le> prev")
      case le: True
      then show ?thesis
        using True by (subst copy_cf.simps) (simp add: e d)
    next
      case gt: False
      have "copy_cf cfs dates libor n (i + 1) (dates ! ?k) (c_cfs @ [cfs ! ?k])
              (c_dates @ [dates ! ?k]) (c_libor @ [libor ! ?k]) =
            (if increasing_after (dates ! ?k) (drop (nat (i + 1)) dates)
             then Inr ((c_cfs @ [cfs ! ?k]) @ drop (nat (i + 1)) cfs,
                       (c_dates @ [dates ! ?k]) @ drop (nat (i + 1)) dates,
                       (c_libor @ [libor ! ?k]) @ drop (nat (i + 1)) libor)
             else Inl (RuntimeError dates_message))"
        using True "1.prems" gt
        by (intro "1.IH" [OF True e(1) e(2) _ e(3)]) simp_all
      then show ?thesis
        using True gt by (subst copy_cf.simps) (simp add: e d k)
    qed
  qed
qed

lemma copy_irr_checks:
  "0 \<le> i \<Longrightarrow> i \<le> n \<Longrightarrow> length cfs = nat n \<Longrightarrow> length dates = nat n \<Longrightarrow>
   copy_irr cfs dates n i prev c_cfs c_dates =
     (if increasing_after prev (drop (nat i) dates)
      then Inr (c_cfs @ drop (nat i) cfs, c_dates @ drop (nat i) dates)
      else Inl (RuntimeError dates_message))"
proof (induction cfs dates n i prev c_cfs c_dates rule: copy_irr.induct)
  case (1 cfs dates n i prev c_cfs c_dates)
  show ?case
  proof (cases "i < n")
    case False
    with "1.prems" show ?thesis
      by (subst copy_irr.simps) simp
  next
    case True
    let ?k = "nat i"
    have k: "?k < length cfs" "?k < length dates" "nat (i + 1) = Suc ?k"
      using True "1.prems" by simp_all
    have e: "ary_entry_dbl cfs i = Inr (cfs ! ?k)" "ary_entry_dbl dates i = Inr (dates ! ?k)"
      using True "1.prems" by (simp_all add: ary_entry_dbl_def)
    have d: "drop ?k cfs = cfs ! ?k # drop (Suc ?k) cfs"
      "drop ?k dates = dates ! ?k # drop (Suc ?k) dates"
      using k by (simp_all add: Cons_nth_drop_Suc)
    show ?thesis
    proof (cases "dates ! ?k \<le> prev")
      case le: True
      then show ?thesis
        using True by (subst copy_irr.simps) (simp add: e d)
    next
      case gt: False
      have "copy_irr cfs dates n (i + 1) (dates ! ?k) (c_cfs @ [cfs ! ?k])
              (c_dates @ [dates ! ?k]) =
            (if increasing_after (dates ! ?k) (drop (nat (i + 1)) dates)
             then Inr ((c_cfs @ [cfs ! ?k]) @ drop (nat (i + 1)) cfs,
                       (c_dates @ [dates ! ?k]) @ drop (nat (i + 1)) dates)
             else Inl (RuntimeError dates_message))"
        using True "1.prems" gt
        by (intro "1.IH" [OF True e(1) e(2)]) simp_all
      then show ?thesis
        using True gt by (subst copy_irr.simps) (simp add: e d k)
    qed
  qed
qed

lemma copy_cf_1: "0 < d \<Longrightarrow> copy_cf [c] [d] [l] 1 0 0 [] [] [] = Inr ([c], [d], [l])"
  by (simp add: copy_cf.simps ary_entry_dbl_def)

lemma copy_cf_2:
  "0 < d1 \<Longrightarrow> d1 < d2 \<Longrightarrow>
   copy_cf [c1, c2] [d1, d2] [l1, l2] 2 0 0 [] [] [] = Inr ([c1, c2], [d1, d2], [l1, l2])"
  by (simp add: copy_cf.simps ary_entry_dbl_def)

lemma copy_irr_1: "0 < d \<Longrightarrow> copy_irr [c] [d] 1 0 0 [] [] = Inr ([c], [d])"
  by (simp add: copy_irr.simps ary_entry_dbl_def)

lemma copy_irr_2:
  "0 < d1 \<Longrightarrow> d1 < d2 \<Longrightarrow> copy_irr [c1, c2] [d1, d2] 2 0 0 [] [] = Inr ([c1, c2], [d1, d2])"
  by (simp add: copy_irr.simps ary_entry_dbl_def)

section \<open>The secant loop over any arithmetic\<close>

text \<open>The three ways through one evaluation of the loop condition and body.\<close>

lemma fp_secant_while_end:
  "\<not> (d_lt A res (fp_ABS A (fp_f_n s)) \<and> fp_trials s < max_tries) \<Longrightarrow>
   fp_secant_while A pv target_px res max_tries s = Fp_loop_end s"
  by (subst fp_secant_while.simps) auto

lemma fp_secant_while_degenerate:
  "d_lt A res (fp_ABS A (fp_f_n s)) \<Longrightarrow> fp_trials s < max_tries \<Longrightarrow>
   d_eq A (fp_f_n s) (fp_f_n_minus_1 s) \<Longrightarrow>
   fp_secant_while A pv target_px res max_tries s = Fp_return_in_body s"
  by (subst fp_secant_while.simps) simp

lemma fp_secant_while_step:
  "d_lt A res (fp_ABS A (fp_f_n s)) \<Longrightarrow> fp_trials s < max_tries \<Longrightarrow>
   \<not> d_eq A (fp_f_n s) (fp_f_n_minus_1 s) \<Longrightarrow>
   x' = d_sub A (fp_x_n s)
          (d_div A (d_mul A (fp_f_n s) (d_sub A (fp_x_n s) (fp_x_n_minus_1 s)))
             (d_sub A (fp_f_n s) (fp_f_n_minus_1 s))) \<Longrightarrow>
   fp_secant_while A pv target_px res max_tries s =
   fp_secant_while A pv target_px res max_tries
     \<lparr>fp_x_n_minus_1 = fp_x_n s, fp_x_n = x', fp_f_n_minus_1 = fp_f_n s,
      fp_f_n = d_sub A target_px (pv x'), fp_trials = fp_trials s + 1\<rparr>"
  by (subst fp_secant_while.simps) (simp add: Let_def)

text \<open>
  When the loop ends by its condition, the residual in the state is the residual at the trial
  point in the state, and the condition is false there: \<^verbatim>\<open>ABS(f_n) > res\<close> does not hold or the
  cap is reached. Hence after \<^verbatim>\<open>return x_n\<close> the comparison \<^verbatim>\<open>ABS(f_n) > res\<close> is false.
\<close>

lemma fp_secant_while_loop_end:
  "fp_secant_while A pv target_px res max_tries s = Fp_loop_end s' \<Longrightarrow>
   fp_f_n s = d_sub A target_px (pv (fp_x_n s)) \<Longrightarrow>
   fp_f_n s' = d_sub A target_px (pv (fp_x_n s')) \<and>
   \<not> (d_lt A res (fp_ABS A (fp_f_n s')) \<and> fp_trials s' < max_tries)"
proof (induction A pv target_px res max_tries s rule: fp_secant_while.induct)
  case (1 A pv target_px res max_tries s)
  show ?case
  proof (cases "d_lt A res (fp_ABS A (fp_f_n s)) \<and> fp_trials s < max_tries")
    case False
    with "1.prems" show ?thesis
      by (simp add: fp_secant_while_end)
  next
    case True
    show ?thesis
    proof (cases "d_eq A (fp_f_n s) (fp_f_n_minus_1 s)")
      case eq: True
      with True "1.prems" show ?thesis
        by (simp add: fp_secant_while_degenerate)
    next
      case ne: False
      from "1.prems" True ne show ?thesis
        by (intro "1.IH" [OF True ne refl]) (simp_all add: fp_secant_while_step)
    qed
  qed
qed

lemma fp_secant_solve_x_n:
  assumes "fp_secant_solve A pv target_px res max_tries = Fp_x_n x"
  shows "\<not> d_lt A res (fp_ABS A (d_sub A target_px (pv x)))"
proof -
  obtain s where s: "fp_secant_while A pv target_px res max_tries (fp_secant_init A pv target_px)
      = Fp_loop_end s"
    and t: "fp_trials s < max_tries" and x: "fp_x_n s = x"
    using assms by (auto simp: fp_secant_solve_def split: fp_exit.splits if_splits)
  have "fp_f_n (fp_secant_init A pv target_px) =
        d_sub A target_px (pv (fp_x_n (fp_secant_init A pv target_px)))"
    by (simp add: fp_secant_init_def Let_def)
  from fp_secant_while_loop_end [OF s this] t x show ?thesis
    by auto
qed

section \<open>The copying loops and the decoding over any arithmetic\<close>

text \<open>
  On arrays of exactly \<^verbatim>\<open>num_cfs\<close> entries a copying loop that reaches its end has copied the
  arrays; a copying loop that does not reach its end raises \<^verbatim>\<open>TypeError\<close> or the day-offset
  failure.
\<close>

lemma fp_copy_cf_result:
  "0 \<le> i \<Longrightarrow> i \<le> n \<Longrightarrow> length cfs = nat n \<Longrightarrow> length dates = nat n \<Longrightarrow>
   length libor = nat n \<Longrightarrow>
   fp_copy_cf A cfs dates libor n i prev c_cfs c_dates c_libor = Inr r \<Longrightarrow>
   r = (c_cfs @ drop (nat i) cfs, c_dates @ drop (nat i) dates, c_libor @ drop (nat i) libor)"
proof (induction A cfs dates libor n i prev c_cfs c_dates c_libor rule: fp_copy_cf.induct)
  case (1 A cfs dates libor n i prev c_cfs c_dates c_libor)
  show ?case
  proof (cases "i < n")
    case False
    with "1.prems" show ?thesis
      by (subst (asm) fp_copy_cf.simps) simp
  next
    case True
    let ?k = "nat i"
    have k: "?k < length cfs" "?k < length dates" "?k < length libor" "nat (i + 1) = Suc ?k"
      using True "1.prems" by simp_all
    have e: "fp_ary_entry cfs i = Inr (cfs ! ?k)" "fp_ary_entry dates i = Inr (dates ! ?k)"
      "fp_ary_entry libor i = Inr (libor ! ?k)"
      using True "1.prems" by (simp_all add: fp_ary_entry_def)
    have d: "drop ?k cfs = cfs ! ?k # drop (Suc ?k) cfs"
      "drop ?k dates = dates ! ?k # drop (Suc ?k) dates"
      "drop ?k libor = libor ! ?k # drop (Suc ?k) libor"
      using k by (simp_all add: Cons_nth_drop_Suc)
    have ok: "\<not> d_le A (dates ! ?k) prev"
      and rec: "fp_copy_cf A cfs dates libor n (i + 1) (dates ! ?k) (c_cfs @ [cfs ! ?k])
              (c_dates @ [dates ! ?k]) (c_libor @ [libor ! ?k]) = Inr r"
      using "1.prems"(6) True
      by (subst (asm) fp_copy_cf.simps; simp add: e split: if_splits)+
    have "r = ((c_cfs @ [cfs ! ?k]) @ drop (nat (i + 1)) cfs,
               (c_dates @ [dates ! ?k]) @ drop (nat (i + 1)) dates,
               (c_libor @ [libor ! ?k]) @ drop (nat (i + 1)) libor)"
      using True "1.prems" ok rec
      by (intro "1.IH" [OF True e(1) e(2) ok e(3)]) simp_all
    then show ?thesis
      by (simp add: d k)
  qed
qed

lemma fp_copy_irr_result:
  "0 \<le> i \<Longrightarrow> i \<le> n \<Longrightarrow> length cfs = nat n \<Longrightarrow> length dates = nat n \<Longrightarrow>
   fp_copy_irr A cfs dates n i prev c_cfs c_dates = Inr r \<Longrightarrow>
   r = (c_cfs @ drop (nat i) cfs, c_dates @ drop (nat i) dates)"
proof (induction A cfs dates n i prev c_cfs c_dates rule: fp_copy_irr.induct)
  case (1 A cfs dates n i prev c_cfs c_dates)
  show ?case
  proof (cases "i < n")
    case False
    with "1.prems" show ?thesis
      by (subst (asm) fp_copy_irr.simps) simp
  next
    case True
    let ?k = "nat i"
    have k: "?k < length cfs" "?k < length dates" "nat (i + 1) = Suc ?k"
      using True "1.prems" by simp_all
    have e: "fp_ary_entry cfs i = Inr (cfs ! ?k)" "fp_ary_entry dates i = Inr (dates ! ?k)"
      using True "1.prems" by (simp_all add: fp_ary_entry_def)
    have d: "drop ?k cfs = cfs ! ?k # drop (Suc ?k) cfs"
      "drop ?k dates = dates ! ?k # drop (Suc ?k) dates"
      using k by (simp_all add: Cons_nth_drop_Suc)
    have ok: "\<not> d_le A (dates ! ?k) prev"
      and rec: "fp_copy_irr A cfs dates n (i + 1) (dates ! ?k) (c_cfs @ [cfs ! ?k])
              (c_dates @ [dates ! ?k]) = Inr r"
      using "1.prems"(5) True
      by (subst (asm) fp_copy_irr.simps; simp add: e split: if_splits)+
    have "r = ((c_cfs @ [cfs ! ?k]) @ drop (nat (i + 1)) cfs,
               (c_dates @ [dates ! ?k]) @ drop (nat (i + 1)) dates)"
      using True "1.prems" ok rec
      by (intro "1.IH" [OF True e(1) e(2) ok]) simp_all
    then show ?thesis
      by (simp add: d k)
  qed
qed

lemma fp_copy_cf_error:
  "fp_copy_cf A cfs dates libor n i prev c_cfs c_dates c_libor = Inl e \<Longrightarrow>
   e = TypeError \<or> e = RuntimeError dates_message"
proof (induction A cfs dates libor n i prev c_cfs c_dates c_libor rule: fp_copy_cf.induct)
  case (1 A cfs dates libor n i prev c_cfs c_dates c_libor)
  from "1.prems" show ?case
    by (subst (asm) fp_copy_cf.simps)
       (auto simp: fp_ary_entry_def split: if_splits sum.splits dest: "1.IH")
qed

lemma fp_copy_irr_error:
  "fp_copy_irr A cfs dates n i prev c_cfs c_dates = Inl e \<Longrightarrow>
   e = TypeError \<or> e = RuntimeError dates_message"
proof (induction A cfs dates n i prev c_cfs c_dates rule: fp_copy_irr.induct)
  case (1 A cfs dates n i prev c_cfs c_dates)
  from "1.prems" show ?case
    by (subst (asm) fp_copy_irr.simps)
       (auto simp: fp_ary_entry_def split: if_splits sum.splits dest: "1.IH")
qed

text \<open>
  What the caller gets for each \<^verbatim>\<open>return\<close> statement of a backsolver, and the only way to a
  number.
\<close>

lemma fp_decode_return:
  assumes "sentinels_compare A"
  shows "fp_result_of_double A (fp_returned_double A r) =
     (case r of
        Fp_neg999 \<Rightarrow> Fp_raise (ZeroDivError zero_div_message)
      | Fp_neg998 \<Rightarrow> Fp_raise (RuntimeError converge_message)
      | Fp_x_n x \<Rightarrow>
          if d_eq A x (d_lit A (- 999.0)) then Fp_raise (ZeroDivError zero_div_message)
          else if d_eq A x (d_lit A (- 998.0)) then Fp_raise (RuntimeError converge_message)
          else Fp_float x)"
  using assms by (cases r) (simp_all add: fp_result_of_double_def sentinels_compare_def)

lemma fp_decode_float:
  assumes "sentinels_compare A" "fp_result_of_double A (fp_returned_double A r) = Fp_float y"
  shows "r = Fp_x_n y \<and> \<not> d_eq A y (d_lit A (- 999.0)) \<and> \<not> d_eq A y (d_lit A (- 998.0))"
  using assms(2) unfolding fp_decode_return [OF assms(1)]
  by (cases r) (simp_all split: if_splits)

lemma fp_backsolve_cf_unfold:
  assumes "sentinels_compare A"
  shows "fp_backsolve_cf A cfs dates libor num_cfs target_px res max_tries is_clean
       accrued_interest year_convention =
     (if num_cfs < 1 then Fp_raise (RuntimeError empty_message)
      else
        case fp_copy_cf A cfs dates libor num_cfs 0 (d_lit A 0.0) [] [] [] of
          Inl e \<Rightarrow> Fp_raise e
        | Inr (c_cfs, c_dates, c_libor) \<Rightarrow>
           (case fp_secant_solve A
                   (fp_compute_pv A c_cfs c_dates c_libor num_cfs is_clean accrued_interest
                      year_convention) target_px res max_tries of
              Fp_neg999 \<Rightarrow> Fp_raise (ZeroDivError zero_div_message)
            | Fp_neg998 \<Rightarrow> Fp_raise (RuntimeError converge_message)
            | Fp_x_n x \<Rightarrow>
                if d_eq A x (d_lit A (- 999.0)) then Fp_raise (ZeroDivError zero_div_message)
                else if d_eq A x (d_lit A (- 998.0))
                  then Fp_raise (RuntimeError converge_message)
                else Fp_float x))"
  unfolding fp_backsolve_cf_def fp_backsolve_cf_core_def fp_decode_return [OF assms]
  by (simp split: sum.splits prod.splits)

lemma fp_backsolve_irr_unfold:
  assumes "sentinels_compare A"
  shows "fp_backsolve_irr A cfs dates num_cfs res max_tries is_clean accrued_interest =
     (if num_cfs < 1 then Fp_raise (RuntimeError empty_message)
      else
        case fp_copy_irr A cfs dates num_cfs 0 (d_lit A 0.0) [] [] of
          Inl e \<Rightarrow> Fp_raise e
        | Inr (c_cfs, c_dates) \<Rightarrow>
           (case fp_secant_solve A
                   (fp_compute_pv_for_irr A c_cfs c_dates num_cfs is_clean accrued_interest)
                   (d_lit A 0.0) res max_tries of
              Fp_neg999 \<Rightarrow> Fp_raise (ZeroDivError zero_div_message)
            | Fp_neg998 \<Rightarrow> Fp_raise (RuntimeError converge_message)
            | Fp_x_n x \<Rightarrow>
                if d_eq A x (d_lit A (- 999.0)) then Fp_raise (ZeroDivError zero_div_message)
                else if d_eq A x (d_lit A (- 998.0))
                  then Fp_raise (RuntimeError converge_message)
                else Fp_float x))"
  unfolding fp_backsolve_irr_def fp_backsolve_irr_core_def fp_decode_return [OF assms]
  by (simp split: sum.splits prod.splits)

lemma fp_backsolve_cf_float:
  assumes "sentinels_compare A"
    and "fp_backsolve_cf A cfs dates libor num_cfs target_px res max_tries is_clean
           accrued_interest year_convention = Fp_float y"
  shows "\<exists>c_cfs c_dates c_libor.
           fp_copy_cf A cfs dates libor num_cfs 0 (d_lit A 0.0) [] [] []
             = Inr (c_cfs, c_dates, c_libor) \<and>
           fp_secant_solve A
             (fp_compute_pv A c_cfs c_dates c_libor num_cfs is_clean accrued_interest
                year_convention) target_px res max_tries = Fp_x_n y"
  using assms(2) unfolding fp_backsolve_cf_unfold [OF assms(1)]
  by (auto split: if_splits sum.splits prod.splits fp_return.splits)

lemma fp_backsolve_irr_float:
  assumes "sentinels_compare A"
    and "fp_backsolve_irr A cfs dates num_cfs res max_tries is_clean accrued_interest
           = Fp_float y"
  shows "\<exists>c_cfs c_dates.
           fp_copy_irr A cfs dates num_cfs 0 (d_lit A 0.0) [] [] = Inr (c_cfs, c_dates) \<and>
           fp_secant_solve A
             (fp_compute_pv_for_irr A c_cfs c_dates num_cfs is_clean accrued_interest)
             (d_lit A 0.0) res max_tries = Fp_x_n y"
  using assms(2) unfolding fp_backsolve_irr_unfold [OF assms(1)]
  by (auto split: if_splits sum.splits prod.splits fp_return.splits)

text \<open>Given arrays of \<^verbatim>\<open>num_cfs\<close> entries, the core runs on the arrays themselves.\<close>

lemma fp_backsolve_cf_float_same_arrays:
  assumes "sentinels_compare A"
    and "length cfs = nat num_cfs" "length dates = nat num_cfs" "length libor = nat num_cfs"
    and "fp_backsolve_cf A cfs dates libor num_cfs target_px res max_tries is_clean
           accrued_interest year_convention = Fp_float x"
  shows "fp_secant_solve A
           (fp_compute_pv A cfs dates libor num_cfs is_clean accrued_interest year_convention)
           target_px res max_tries = Fp_x_n x"
proof -
  have n: "1 \<le> num_cfs"
    using assms(5) by (simp add: fp_backsolve_cf_def split: if_splits)
  obtain c_cfs c_dates c_libor where
    c: "fp_copy_cf A cfs dates libor num_cfs 0 (d_lit A 0.0) [] [] []
          = Inr (c_cfs, c_dates, c_libor)"
    and s: "fp_secant_solve A
             (fp_compute_pv A c_cfs c_dates c_libor num_cfs is_clean accrued_interest
                year_convention) target_px res max_tries = Fp_x_n x"
    using fp_backsolve_cf_float [OF assms(1,5)] by blast
  have "(c_cfs, c_dates, c_libor) = ([] @ drop (nat 0) cfs, [] @ drop (nat 0) dates,
      [] @ drop (nat 0) libor)"
    using n assms(2-4) by (intro fp_copy_cf_result [OF _ _ _ _ _ c]) simp_all
  with s show ?thesis
    by simp
qed

section \<open>The exact arithmetic is the model over the reals\<close>

text \<open>
  With the record \<^const>\<open>exact\<close> every function of the second model is the function of the
  same name of the first.
\<close>

lemma exact_ops:
  "d_lit exact r = r"
  "d_add exact x y = x + y"
  "d_sub exact x y = x - y"
  "d_mul exact x y = x * y"
  "d_div exact x y = x / y"
  "d_neg exact x = - x"
  "d_lt exact x y = (x < y)"
  "d_le exact x y = (x \<le> y)"
  "d_eq exact x y = (x = y)"
  "d_pow exact x y = pow_c x y"
  by (simp_all add: exact_def)

lemma sentinels_compare_exact: "sentinels_compare exact"
  by (simp add: sentinels_compare_def exact_ops)

lemma fp_ABS_exact: "fp_ABS exact x = ABS x"
  by (simp add: fp_ABS_def ABS_def exact_ops)

lemma fp_compute_pv_loop_exact:
  "fp_compute_pv_loop exact cfs dates libor num_cfs year_convention spread t discount_factor
     prev_cumul_date cumul_pv =
   compute_pv_loop cfs dates libor num_cfs year_convention spread t discount_factor
     prev_cumul_date cumul_pv"
proof (induction cfs dates libor num_cfs year_convention spread t discount_factor
    prev_cumul_date cumul_pv rule: compute_pv_loop.induct)
  case (1 cfs dates libor num_cfs year_convention spread t discount_factor prev_cumul_date
      cumul_pv)
  show ?case
  proof (cases "t < num_cfs")
    case True
    with "1.IH" [OF True refl refl refl] show ?thesis
      by (subst fp_compute_pv_loop.simps, subst compute_pv_loop.simps)
         (simp add: Let_def exact_ops)
  next
    case False
    then show ?thesis
      by (subst fp_compute_pv_loop.simps, subst compute_pv_loop.simps) simp
  qed
qed

lemma fp_compute_pv_exact:
  "fp_compute_pv exact cfs dates libor num_cfs is_clean accrued_interest year_convention spread =
   compute_pv cfs dates libor num_cfs is_clean accrued_interest year_convention spread"
  by (simp add: fp_compute_pv_def compute_pv_def fp_compute_pv_loop_exact exact_ops Let_def)

lemma fp_compute_pv_for_irr_loop_exact:
  "fp_compute_pv_for_irr_loop exact cfs dates num_cfs year_convention orig_date irr t cumul_pv =
   compute_pv_for_irr_loop cfs dates num_cfs year_convention orig_date irr t cumul_pv"
proof (induction cfs dates num_cfs year_convention orig_date irr t cumul_pv
    rule: compute_pv_for_irr_loop.induct)
  case (1 cfs dates num_cfs year_convention orig_date irr t cumul_pv)
  show ?case
  proof (cases "t < num_cfs")
    case True
    with "1.IH" [OF True refl] show ?thesis
      by (subst fp_compute_pv_for_irr_loop.simps, subst compute_pv_for_irr_loop.simps)
         (simp add: Let_def exact_ops)
  next
    case False
    then show ?thesis
      by (subst fp_compute_pv_for_irr_loop.simps, subst compute_pv_for_irr_loop.simps) simp
  qed
qed

lemma fp_compute_pv_for_irr_exact:
  "fp_compute_pv_for_irr exact cfs dates num_cfs is_clean accrued_interest irr =
   compute_pv_for_irr cfs dates num_cfs is_clean accrued_interest irr"
  by (simp add: fp_compute_pv_for_irr_def compute_pv_for_irr_def
      fp_compute_pv_for_irr_loop_exact exact_ops Let_def)

lemma fp_secant_while_exact:
  "fp_secant_while exact pv target_px res max_tries (exact_state s) =
   exact_exit (secant_while pv target_px res max_tries s)"
proof (induction pv target_px res max_tries s rule: secant_while.induct)
  case (1 pv target_px res max_tries s)
  show ?case
  proof (cases "ABS (f_n s) > res \<and> trials s < max_tries")
    case False
    then show ?thesis
      by (subst fp_secant_while.simps, subst secant_while.simps)
         (auto simp: exact_state_def fp_ABS_exact exact_ops)
  next
    case True
    show ?thesis
    proof (cases "f_n s = f_n_minus_1 s")
      case eq: True
      with True show ?thesis
        by (subst fp_secant_while.simps, subst secant_while.simps)
           (simp add: exact_state_def fp_ABS_exact exact_ops)
    next
      case ne: False
      from True ne "1.IH" [OF True ne refl] show ?thesis
        by (subst fp_secant_while.simps, subst secant_while.simps)
           (simp add: exact_state_def fp_ABS_exact exact_ops Let_def)
    qed
  qed
qed

lemma fp_secant_solve_exact:
  "fp_secant_solve exact pv target_px res max_tries =
   exact_return (secant_solve pv target_px res max_tries)"
proof -
  have i: "fp_secant_init exact pv target_px = exact_state (secant_init pv target_px)"
    by (simp add: fp_secant_init_def secant_init_def exact_state_def exact_ops Let_def)
  show ?thesis
    unfolding fp_secant_solve_def secant_solve_def i fp_secant_while_exact
    by (cases "secant_while pv target_px res max_tries (secant_init pv target_px)")
       (simp_all add: exact_state_def)
qed

lemma fp_copy_cf_exact:
  "fp_copy_cf exact cfs dates libor n i prev c_cfs c_dates c_libor =
   copy_cf cfs dates libor n i prev c_cfs c_dates c_libor"
proof (induction cfs dates libor n i prev c_cfs c_dates c_libor rule: copy_cf.induct)
  case (1 cfs dates libor n i prev c_cfs c_dates c_libor)
  show ?case
    by (subst fp_copy_cf.simps, subst copy_cf.simps)
       (auto simp: fp_ary_entry_def ary_entry_dbl_def exact_ops "1.IH" split: sum.splits)
qed

lemma fp_copy_irr_exact:
  "fp_copy_irr exact cfs dates n i prev c_cfs c_dates =
   copy_irr cfs dates n i prev c_cfs c_dates"
proof (induction cfs dates n i prev c_cfs c_dates rule: copy_irr.induct)
  case (1 cfs dates n i prev c_cfs c_dates)
  show ?case
    by (subst fp_copy_irr.simps, subst copy_irr.simps)
       (auto simp: fp_ary_entry_def ary_entry_dbl_def exact_ops "1.IH" split: sum.splits)
qed

lemma fp_result_of_double_exact:
  "fp_result_of_double exact (fp_returned_double exact (exact_return r)) =
   exact_value (result_of_double (returned_double r))"
  by (cases r) (simp_all add: fp_result_of_double_def result_of_double_def exact_ops)

lemma fp_backsolve_cf_exact:
  "fp_backsolve_cf exact cfs dates libor num_cfs target_px res max_tries is_clean
     accrued_interest year_convention =
   exact_value (backsolve_cf cfs dates libor num_cfs target_px res max_tries is_clean
     accrued_interest year_convention)"
proof -
  have p: "fp_compute_pv exact c d l num_cfs is_clean accrued_interest year_convention =
      compute_pv c d l num_cfs is_clean accrued_interest year_convention" for c d l
    by (rule ext) (rule fp_compute_pv_exact)
  show ?thesis
    by (simp add: fp_backsolve_cf_def backsolve_cf_def fp_copy_cf_exact exact_ops
        fp_backsolve_cf_core_def backsolve_cf_core_def p fp_secant_solve_exact
        fp_result_of_double_exact split: sum.splits prod.splits)
qed

lemma fp_backsolve_irr_exact:
  "fp_backsolve_irr exact cfs dates num_cfs res max_tries is_clean accrued_interest =
   exact_value (backsolve_irr cfs dates num_cfs res max_tries is_clean accrued_interest)"
proof -
  have p: "fp_compute_pv_for_irr exact c d num_cfs is_clean accrued_interest =
      compute_pv_for_irr c d num_cfs is_clean accrued_interest" for c d
    by (rule ext) (rule fp_compute_pv_for_irr_exact)
  show ?thesis
    by (simp add: fp_backsolve_irr_def backsolve_irr_def fp_copy_irr_exact exact_ops
        fp_backsolve_irr_core_def backsolve_irr_core_def p fp_secant_solve_exact
        fp_result_of_double_exact split: sum.splits prod.splits)
qed

text \<open>
  One entry of 100 after a year at reference rate 0, target 100, tolerance 1, two iterations
  allowed: the first secant step lands on \<open>-3/800\<close>, where the residual is \<open>-300/797\<close>.
\<close>

lemma exact_one_step:
  "secant_solve (compute_pv [100] [365] [0] 1 False 0 365) 100 1 2 = Return_x_n (- 3 / 800)"
proof -
  let ?pv = "compute_pv [100] [365] [0] 1 False 0 365"
  let ?s0 = "secant_init ?pv 100"
  let ?s1 = "\<lparr>x_n_minus_1 = 1 / 16, x_n = - 3 / 800, f_n_minus_1 = 100 / 17,
             f_n = - 300 / 797, trials = 1\<rparr>"
  have "secant_while ?pv 100 1 2 ?s0 = secant_while ?pv 100 1 2 ?s1"
    by (subst secant_while_step) (simp_all add: ABS_def compute_pv_1)
  then have "secant_while ?pv 100 1 2 ?s0 = Loop_end ?s1"
    by (simp add: secant_while_end ABS_def)
  then show ?thesis
    by (simp add: secant_solve_def)
qed

section \<open>Rounding to binary64\<close>

text \<open>
  A real number between \<^verbatim>\<open>2^k\<close> and \<^verbatim>\<open>2^(k+1)\<close> in magnitude that lies less than half a unit in
  the last place from \<^verbatim>\<open>m * 2^(k-52)\<close> rounds to it; one that lies exactly half way rounds
  to the even neighbour.
\<close>

lemma binary_exponent_eqI:
  assumes "2 powi k \<le> \<bar>x\<bar>" "\<bar>x\<bar> < 2 powi (k + 1)"
  shows "binary_exponent x = k"
proof (cases "1 \<le> \<bar>x\<bar>")
  case True
  have k: "0 \<le> k"
  proof (rule ccontr)
    assume "\<not> 0 \<le> k"
    then have "k + 1 \<le> 0" by simp
    then have "(2::real) powi (k + 1) \<le> 2 powi 0"
      by (intro power_int_increasing) simp_all
    with assms(2) True show False by simp
  qed
  have p: "(2::real) powi k = of_int (2 ^ nat k)" "(2::real) powi (k + 1) = of_int (2 ^ nat (k + 1))"
    using k by (simp_all add: power_int_def)
  have lo: "2 ^ nat k \<le> \<lfloor>\<bar>x\<bar>\<rfloor>"
    using assms(1) unfolding p by (simp only: le_floor_iff)
  have hi: "\<lfloor>\<bar>x\<bar>\<rfloor> < 2 ^ nat (k + 1)"
    using assms(2) unfolding p by (simp only: floor_less_iff)
  have "bitlen \<lfloor>\<bar>x\<bar>\<rfloor> \<le> k + 1"
    using hi k by (simp add: bitlen_le_iff_power)
  moreover have "k + 1 \<le> bitlen \<lfloor>\<bar>x\<bar>\<rfloor>"
    using lo k by (simp add: bitlen_ge_iff_power nat_add_distrib)
  ultimately show ?thesis
    using True by (simp add: binary_exponent_def)
next
  case False
  have pos: "0 < \<bar>x\<bar>"
    using assms(1) by (smt (verit) zero_less_power_int)
  have k: "k < 0"
  proof (rule ccontr)
    assume "\<not> k < 0"
    then have "(2::real) powi 0 \<le> 2 powi k"
      by (intro power_int_increasing) simp_all
    with assms(1) False show False by simp
  qed
  let ?y = "1 / \<bar>x\<bar>"
  let ?j = "nat (- k)"
  have j: "0 < ?j" using k by simp
  have p: "(2::real) powi k = 1 / of_int (2 ^ ?j)"
    "(2::real) powi (k + 1) = 1 / of_int (2 ^ (?j - 1))"
    using k by (simp_all add: power_int_def field_simps nat_diff_distrib' flip: power_inverse)
      arith
  have up: "?y \<le> of_int (2 ^ ?j)"
    using assms(1) pos unfolding p by (simp add: field_simps)
  have dn: "of_int (2 ^ (?j - 1)) < ?y"
    using assms(2) pos unfolding p by (simp add: field_simps)
  have "\<lceil>?y\<rceil> \<le> 2 ^ ?j"
    by (rule ceiling_le) (use up in simp)
  then have c1: "\<lceil>?y\<rceil> - 1 < 2 ^ ?j"
    by simp
  have "2 ^ (?j - 1) < \<lceil>?y\<rceil>"
    by (subst less_ceiling_iff) (use dn in simp)
  then have c2: "2 ^ (?j - 1) \<le> \<lceil>?y\<rceil> - 1"
    by simp
  have "bitlen (\<lceil>?y\<rceil> - 1) \<le> - k"
    using c1 k by (simp add: bitlen_le_iff_power)
  moreover have "- k \<le> bitlen (\<lceil>?y\<rceil> - 1)"
    using c2 k by (simp add: bitlen_ge_iff_power)
  ultimately show ?thesis
    using False by (simp add: binary_exponent_def)
qed

text \<open>The exponent is the whole part of the binary logarithm.\<close>

lemma binary_exponent_log:
  assumes "x \<noteq> 0"
  shows "binary_exponent x = \<lfloor>log 2 \<bar>x\<bar>\<rfloor>"
proof (rule binary_exponent_eqI)
  have pos: "0 < \<bar>x\<bar>" using assms by simp
  have p: "(2::real) powi j = 2 powr (of_int j)" for j
    by (simp add: powr_real_of_int')
  show "2 powi \<lfloor>log 2 \<bar>x\<bar>\<rfloor> \<le> \<bar>x\<bar>"
    using pos by (simp add: p flip: le_log_iff)
  show "\<bar>x\<bar> < 2 powi (\<lfloor>log 2 \<bar>x\<bar>\<rfloor> + 1)"
    using pos by (simp add: p flip: log_less_iff)
qed

lemma round_ties_even_eqI:
  assumes "\<bar>r - of_int m\<bar> < 1 / 2"
  shows "round_ties_even r = m"
proof (cases "of_int m \<le> r")
  case True
  with assms have "\<lfloor>r\<rfloor> = m"
    by (intro floor_unique) auto
  with assms True show ?thesis
    by (simp add: round_ties_even_def Let_def)
next
  case False
  with assms have f: "\<lfloor>r\<rfloor> = m - 1"
    by (intro floor_unique) auto
  with assms False show ?thesis
    by (auto simp: round_ties_even_def Let_def)
qed

lemma binary64_round_eqI:
  assumes "2 powi k \<le> \<bar>x\<bar>" "\<bar>x\<bar> < 2 powi (k + 1)"
    and "\<bar>x / 2 powi (k - 52) - of_int m\<bar> < 1 / 2"
    and "y = of_int m * 2 powi (k - 52)"
  shows "binary64_round x = y"
proof -
  have pos: "0 < \<bar>x\<bar>"
    using assms(1) by (smt (verit) zero_less_power_int)
  have "binary_exponent x = k"
    using assms(1,2) by (rule binary_exponent_eqI)
  with pos assms(3,4) show ?thesis
    by (simp add: binary64_round_def Let_def round_ties_even_eqI)
qed

lemma round_ties_even_tieI:
  assumes "r - of_int f = 1 / 2" "m = (if even f then f else f + 1)"
  shows "round_ties_even r = m"
proof -
  have "\<lfloor>r\<rfloor> = f"
    using assms(1) by (intro floor_unique) auto
  with assms show ?thesis
    by (simp add: round_ties_even_def Let_def)
qed

lemma binary64_round_tieI:
  assumes "2 powi k \<le> \<bar>x\<bar>" "\<bar>x\<bar> < 2 powi (k + 1)"
    and "x / 2 powi (k - 52) - of_int f = 1 / 2"
    and "y = of_int (if even f then f else f + 1) * 2 powi (k - 52)"
  shows "binary64_round x = y"
proof -
  have pos: "0 < \<bar>x\<bar>"
    using assms(1) by (smt (verit) zero_less_power_int)
  have "binary_exponent x = k"
    using assms(1,2) by (rule binary_exponent_eqI)
  moreover have "round_ties_even (x / 2 powi (k - 52)) = (if even f then f else f + 1)"
    using assms(3) by (intro round_ties_even_tieI) simp_all
  ultimately show ?thesis
    using pos assms(4) by (simp add: binary64_round_def Let_def)
qed

lemma binary64_round_0: "binary64_round 0 = 0"
  by (simp add: binary64_round_def)

lemma binary64_ops:
  "d_lit binary64 = binary64_round"
  "d_add binary64 x y = binary64_round (x + y)"
  "d_sub binary64 x y = binary64_round (x - y)"
  "d_mul binary64 x y = binary64_round (x * y)"
  "d_div binary64 x y = binary64_round (x / y)"
  "d_neg binary64 x = - x"
  "d_lt binary64 x y = (x < y)"
  "d_le binary64 x y = (x \<le> y)"
  "d_eq binary64 x y = (x = y)"
  by (simp_all add: binary64_def)

text \<open>
  The roundings that occur when the spread backsolver runs in binary64 on the amounts
  \<open>-1693703\<close> and \<open>899198\<close> one and two years out, zero reference rates, year convention 365,
  target \<^verbatim>\<open>1697.9999999993597\<close> and tolerance \<^verbatim>\<open>0.001\<close>: the constants, the two seeds and their
  present values and residuals, the secant step, and the present value and residual at the
  new trial point. Every number is zero or between \<^verbatim>\<open>2^-31\<close> and \<^verbatim>\<open>2^21\<close> in magnitude, and no divisor
  is zero.
\<close>

lemma rnd_0: "binary64_round (3 / 50) = 1080863910568919 / 18014398509481984"
  by (rule binary64_round_eqI [where k = "- 5" and m = 8646911284551352]) simp_all

lemma rnd_1: "binary64_round (1 / 400) = 5764607523034235 / 2305843009213693952"
  by (rule binary64_round_eqI [where k = "- 9" and m = 5764607523034235]) simp_all

lemma rnd_2: "binary64_round (144115188075855867 / 2305843009213693952) = 1 / 16"
  by (rule binary64_round_eqI [where k = "- 5" and m = 9007199254740992]) simp_all

lemma rnd_3: "binary64_round 1 = 1"
  by (rule binary64_round_eqI [where k = 0 and m = 4503599627370496]) simp_all

lemma rnd_4: "binary64_round (1080863910568919 / 18014398509481984) = 1080863910568919 / 18014398509481984"
  by (rule binary64_round_eqI [where k = "- 5" and m = 8646911284551352]) simp_all

lemma rnd_5: "binary64_round 365 = 365"
  by (rule binary64_round_eqI [where k = 8 and m = 6421147906211840]) simp_all

lemma rnd_6: "binary64_round (394515327357655435 / 18014398509481984) = 3082150994981683 / 140737488355328"
  by (rule binary64_round_eqI [where k = 4 and m = 6164301989963366]) simp_all

lemma rnd_7: "binary64_round (3082150994981683 / 51369183249694720) = 1080863910568919 / 18014398509481984"
  by (rule binary64_round_eqI [where k = "- 5" and m = 8646911284551352]) simp_all

lemma rnd_8: "binary64_round (19095262420050903 / 18014398509481984) = 2386907802506363 / 2251799813685248"
  by (rule binary64_round_eqI [where k = 0 and m = 4773815605012726]) simp_all

lemma rnd_9: "binary64_round (2251799813685248 / 2386907802506363) = 8497357787491501 / 9007199254740992"
  by (rule binary64_round_eqI [where k = "- 1" and m = 8497357787491501]) simp_all

lemma rnd_10: "binary64_round (- (14392000376747717718203 / 9007199254740992)) = - (3431320280253343 / 2147483648)"
  by (rule binary64_round_eqI [where k = 20 and m = "- 6862640560506686"]) simp_all

lemma rnd_11: "binary64_round (- (3431320280253343 / 2147483648)) = - (3431320280253343 / 2147483648)"
  by (rule binary64_round_eqI [where k = 20 and m = "- 6862640560506686"]) simp_all

lemma rnd_12: "binary64_round (8497357787491501 / 9547631210025452) = 8016375271218397 / 9007199254740992"
  by (rule binary64_round_eqI [where k = "- 1" and m = 8016375271218397]) simp_all

lemma rnd_13: "binary64_round (3604154305564520072803 / 4503599627370496) = 6874378787163773 / 8589934592"
  by (rule binary64_round_eqI [where k = 19 and m = 6874378787163773]) simp_all

lemma rnd_14: "binary64_round (- (6850902333849599 / 8589934592)) = - (6850902333849599 / 8589934592)"
  by (rule binary64_round_eqI [where k = 19 and m = "- 6850902333849599"]) simp_all

lemma rnd_15: "binary64_round (1 / 16) = 1 / 16"
  by (rule binary64_round_eqI [where k = "- 4" and m = 4503599627370496]) simp_all

lemma rnd_16: "binary64_round (365 / 16) = 365 / 16"
  by (rule binary64_round_eqI [where k = 4 and m = 6421147906211840]) simp_all

lemma rnd_17: "binary64_round (17 / 16) = 17 / 16"
  by (rule binary64_round_eqI [where k = 0 and m = 4785074604081152]) simp_all

lemma rnd_18: "binary64_round (16 / 17) = 4238682002231055 / 4503599627370496"
  by (rule binary64_round_eqI [where k = "- 1" and m = 8477364004462110]) simp_all

lemma rnd_19: "binary64_round (- (7179068423224744546665 / 4503599627370496)) = - (6846493170952553 / 4294967296)"
  by (rule binary64_round_eqI [where k = 20 and m = "- 6846493170952553"]) simp_all

lemma rnd_20: "binary64_round (- (6846493170952553 / 4294967296)) = - (6846493170952553 / 4294967296)"
  by (rule binary64_round_eqI [where k = 20 and m = "- 6846493170952553"]) simp_all

lemma rnd_21: "binary64_round (4238682002231055 / 4785074604081152) = 3989347766805699 / 4503599627370496"
  by (rule binary64_round_eqI [where k = "- 1" and m = 7978695533611398]) simp_all

lemma rnd_22: "binary64_round (1793606766608075464701 / 2251799813685248) = 6842066828186323 / 8589934592"
  by (rule binary64_round_eqI [where k = 19 and m = 6842066828186323]) simp_all

lemma rnd_23: "binary64_round (- (6850919513718783 / 8589934592)) = - (6850919513718783 / 8589934592)"
  by (rule binary64_round_eqI [where k = 19 and m = "- 6850919513718783"]) simp_all

lemma rnd_24: "binary64_round (13730976085573619 / 17179869184) = 3432744021393405 / 4294967296"
  by (rule binary64_round_tieI [where k = 19 and f = 6865488042786809]) simp_all

lemma rnd_25: "binary64_round (13731010445311987 / 17179869184) = 3432752611327997 / 4294967296"
  by (rule binary64_round_tieI [where k = 19 and f = 6865505222655993]) simp_all

lemma rnd_26: "binary64_round (45035996273705 / 18014398509481984) = 45035996273705 / 18014398509481984"
  by (rule binary64_round_eqI [where k = "- 9" and m = 5764607523034240]) simp_all

lemma rnd_27: "binary64_round (154597433812318781063541418885 / 77371252455336267181195264) = 15985 / 8"
  by (rule binary64_round_eqI [where k = 10 and m = 8787846684999680]) simp_all

lemma rnd_28: "binary64_round 2 = 2"
  by (rule binary64_round_eqI [where k = 1 and m = 4503599627370496]) simp_all

lemma rnd_29: "binary64_round (15985 / 16) = 15985 / 16"
  by (rule binary64_round_eqI [where k = 9 and m = 8787846684999680]) simp_all

lemma rnd_30: "binary64_round (- 999) = - 999"
  by (rule binary64_round_eqI [where k = 9 and m = "- 8787296929185792"]) simp_all

lemma rnd_31: "binary64_round (- 364635) = - 364635"
  by (rule binary64_round_eqI [where k = 18 and m = "- 6264381599907840"]) simp_all

lemma rnd_32: "binary64_round (- 998) = - 998"
  by (rule binary64_round_eqI [where k = 9 and m = "- 8778500836163584"]) simp_all

lemma rnd_33: "binary64_round (- (1 / 998)) = - (4620927874175739 / 4611686018427387904)"
  by (rule binary64_round_eqI [where k = "- 10" and m = "- 4620927874175739"]) simp_all

lemma rnd_34: "binary64_round (7826479403275071671517 / 4611686018427387904) = 7463912394785949 / 4398046511104"
  by (rule binary64_round_eqI [where k = 10 and m = 7463912394785949]) simp_all

lemma rnd_35: "binary64_round (7463912394785949 / 4398046511104) = 7463912394785949 / 4398046511104"
  by (rule binary64_round_eqI [where k = 10 and m = 7463912394785949]) simp_all

lemma rnd_36: "binary64_round (4620927874175739 / 4602462646390533128192) = 4741312768693343 / 4722366482869645213696"
  by (rule binary64_round_eqI [where k = "- 20" and m = 4741312768693343]) simp_all

lemma rnd_37: "binary64_round (2131689479491758319457 / 2361183241434822606848) = 4065875014289395 / 4503599627370496"
  by (rule binary64_round_eqI [where k = "- 1" and m = 8131750028578790]) simp_all

lemma rnd_38: "binary64_round (7647112167275101171 / 4503599627370496) = 7467882975854591 / 4398046511104"
  by (rule binary64_round_eqI [where k = 10 and m = 7467882975854591]) simp_all

lemma rnd_39: "binary64_round (- (2815 / 4398046511104)) = - (2815 / 4398046511104)"
  by (rule binary64_round_eqI [where k = "- 31" and m = "- 6190250464378880"]) simp_all

lemma rnd_40: "binary64_round (- 997) = - 997"
  by (rule binary64_round_eqI [where k = 9 and m = "- 8769704743141376"]) simp_all

lemma rnd_41: "binary64_round (1 / 1000) = 1152921504606847 / 1152921504606846976"
  by (rule binary64_round_eqI [where k = "- 10" and m = 4611686018427388]) simp_all

lemma rnd_42: "binary64_round (16979999999993597 / 10000000000000) = 29171417874421 / 17179869184"
  by (rule binary64_round_eqI [where k = 10 and m = 7467882975851776]) simp_all

lemmas rounding_facts =
  binary64_round_0 rnd_0 rnd_1 rnd_2 rnd_3 rnd_4 rnd_5 rnd_6 rnd_7 rnd_8 rnd_9 rnd_10 rnd_11
  rnd_12 rnd_13 rnd_14 rnd_15 rnd_16 rnd_17 rnd_18 rnd_19 rnd_20 rnd_21 rnd_22 rnd_23 rnd_24
  rnd_25 rnd_26 rnd_27 rnd_28 rnd_29 rnd_30 rnd_31 rnd_32 rnd_33 rnd_34 rnd_35 rnd_36 rnd_37
  rnd_38 rnd_39 rnd_40 rnd_41 rnd_42

text \<open>The sentinel constants are binary64 numbers.\<close>

lemma sentinels_compare_binary64: "sentinels_compare binary64"
  by (simp add: sentinels_compare_def binary64_ops rounding_facts)

text \<open>The present values at the two seeds and at \<open>-999\<close>, in binary64.\<close>

lemma binary64_pv_first_seed: "fp_compute_pv binary64 [- 1693703, 899198] [365, 730] [0, 0] 2 False 0 365
    (1080863910568919 / 18014398509481984) = - (6850902333849599 / 8589934592)"
  by (simp add: fp_compute_pv_def fp_compute_pv_loop.simps Let_def binary64_ops rounding_facts)

lemma binary64_pv_second_seed: "fp_compute_pv binary64 [- 1693703, 899198] [365, 730] [0, 0] 2 False 0 365
    (1 / 16) = - (6850919513718783 / 8589934592)"
  by (simp add: fp_compute_pv_def fp_compute_pv_loop.simps Let_def binary64_ops rounding_facts)

lemma binary64_pv_neg999: "fp_compute_pv binary64 [- 1693703, 899198] [365, 730] [0, 0] 2 False 0 365
    (- 999) = 7467882975854591 / 4398046511104"
  by (simp add: fp_compute_pv_def fp_compute_pv_loop.simps Let_def binary64_ops rounding_facts)

section \<open>Present value against the specification\<close>

text \<open>
  C3. For a stream of \<open>num_cfs > 0\<close> entries, \<^verbatim>\<open>_compute_pv\<close> returns the value of the
  recurrence of the specification on the entries in order: the period rate is the reference
  rate plus the spread, the discount factor is divided by
  \<open>1 + periodRate * (dayOffset - previousDayOffset) / yearConvention\<close> starting from factor 1
  and offset 0, \<open>amount * discountFactor\<close> is accumulated, and accrued interest is subtracted
  exactly when the clean flag is set.
\<close>

theorem compute_pv_is_recurrence:
  assumes "0 < num_cfs" "length cfs = nat num_cfs" "length dates = nat num_cfs"
    "length libor = nat num_cfs"
  shows "compute_pv cfs dates libor num_cfs is_clean accrued_interest year_convention spread =
         spec_pv_spread (zip cfs (zip dates libor)) year_convention is_clean accrued_interest
           spread"
  using assms
    compute_pv_loop_recurrence [of 0 num_cfs cfs dates libor year_convention spread 1 0 0]
  by (simp add: compute_pv_def spec_pv_spread_def Let_def)

text \<open>
  Amounts 5 and 105 after one and two years, zero reference rates, spread 1, clean with
  accrued interest 1: the discount factors are \<open>1/2\<close> and \<open>1/4\<close>.
\<close>

theorem compute_pv_is_recurrence_witness:
  "(0::int) < 2 \<and> length [5, 105::double] = nat 2 \<and> length [365, 730::double] = nat 2 \<and>
   length [0, 0::double] = nat 2 \<and>
   compute_pv [5, 105] [365, 730] [0, 0] 2 True 1 365 1 =
     spec_pv_spread (zip [5, 105] (zip [365, 730] [0, 0])) 365 True 1 1 \<and>
   spec_pv_spread (zip [5, 105] (zip [365, 730] [0, 0])) 365 True 1 1 = 111 / 4"
  using compute_pv_is_recurrence [of 2 "[5, 105]" "[365, 730]" "[0, 0]" True 1 365 1]
  by (simp add: spec_pv_spread_def)

text \<open>
  C4. For a stream of \<open>num_cfs > 0\<close> entries, \<^verbatim>\<open>_compute_pv_for_irr\<close> returns the sum over the
  entries \<open>t\<close> of \<open>amount[t] * (1 / (1 + yield)^((dayOffset[t] - dayOffset[0]) / 365))\<close>, the
  exponent being counted from the first entry's day offset, less accrued interest exactly
  when the clean flag is set.
\<close>

theorem compute_pv_for_irr_is_sum:
  assumes "0 < num_cfs"
  shows "compute_pv_for_irr cfs dates num_cfs is_clean accrued_interest irr =
         (\<Sum>t<nat num_cfs. cfs ! t * (1 / pow_c (1 + irr) ((dates ! t - dates ! 0) / 365)))
           - (if is_clean then accrued_interest else 0)"
  using assms compute_pv_for_irr_loop_sum [of 0 num_cfs cfs dates 365 "dates ! 0" irr 0]
  by (simp add: compute_pv_for_irr_def Let_def lessThan_atLeast0)

text \<open>Two entries a year apart at a yield of 25 percent: \<open>5 + 105 / 1.25 = 89\<close>.\<close>

theorem compute_pv_for_irr_is_sum_witness:
  "(0::int) < 2 \<and>
   compute_pv_for_irr [5, 105] [365, 730] 2 False 0 (1 / 4) =
     (\<Sum>t<nat 2. [5, 105] ! t * (1 / pow_c (1 + 1 / 4) (([365, 730] ! t - [365, 730] ! 0) / 365)))
       - (if False then 0 else 0) \<and>
   (\<Sum>t<nat 2. [5, 105::double] ! t *
       (1 / pow_c (1 + 1 / 4) (([365, 730] ! t - [365, 730] ! 0) / 365))) = 89"
  using compute_pv_for_irr_is_sum [of 2 "[5, 105]" "[365, 730]" False 0 "1 / 4"]
  by (simp add: pow_c_def lessThan_Suc eval_nat_numeral)

section \<open>Termination and the iteration cap\<close>

text \<open>
  C8. Every solve terminates: all loops are total functions, each with a measure that
  decreases (\<open>num_cfs - t\<close> for the two discounting loops, \<open>max_tries - trials\<close> for the secant
  loop), and the secant loop started by either backsolver (\<open>pv\<close> is either discounting
  function) completes at most \<open>max_tries\<close> iterations, none when \<open>max_tries \<le> 0\<close>.
  \<^verbatim>\<open>trials\<close> counts the completed iterations; the iteration that leaves through
  \<^verbatim>\<open>return -999.0\<close> is entered with \<^verbatim>\<open>trials\<close> still below the cap.
\<close>

theorem secant_iterations_bounded:
  "case secant_while pv target_px res max_tries (secant_init pv target_px) of
     Return_in_body s \<Rightarrow> 0 \<le> trials s \<and> trials s < max_tries
   | Loop_end s \<Rightarrow> 0 \<le> trials s \<and> trials s \<le> max 0 max_tries"
  using secant_while_trials [where s = "secant_init pv target_px" and pv = pv
      and target_px = target_px and res = res and max_tries = max_tries]
  by (simp split: loop_exit.splits)

section \<open>Success at the second seed\<close>

text \<open>
  C10. With \<open>max_tries \<ge> 1\<close>, if the residual at the second seed \<open>0.06 + 0.0025 = 0.0625\<close>
  is within the tolerance, the loop is left at once from the initial state (no secant update,
  no degenerate-slope test) and both backsolvers return exactly 0.0625. The residual at the
  first seed 0.06 plays no part in this and is never tested on its own: a loop that ends
  without a completed iteration ends at 0.0625 with the second seed's residual within the
  tolerance, whatever the residual at 0.06 is. (In the model \<open>0.06 + 0.0025\<close> is the exact
  sum.)
\<close>

theorem second_seed_success:
  assumes "1 \<le> max_tries"
  shows "(\<bar>target_px - pv 0.0625\<bar> \<le> res \<longrightarrow>
           secant_while pv target_px res max_tries (secant_init pv target_px) =
             Loop_end (secant_init pv target_px) \<and>
           secant_solve pv target_px res max_tries = Return_x_n 0.0625) \<and>
         (\<bar>target_px - compute_pv cfs dates libor num_cfs is_clean accrued_interest
              year_convention 0.0625\<bar> \<le> res \<longrightarrow>
           backsolve_cf_core cfs dates libor num_cfs target_px res max_tries is_clean
             accrued_interest year_convention = 0.0625) \<and>
         (\<bar>0 - compute_pv_for_irr cfs dates num_cfs is_clean accrued_interest 0.0625\<bar> \<le> res \<longrightarrow>
           backsolve_irr_core cfs dates num_cfs res max_tries is_clean accrued_interest = 0.0625) \<and>
         (secant_while pv target_px res max_tries (secant_init pv target_px) = Loop_end s \<and>
          trials s = 0 \<longrightarrow>
           x_n s = 0.0625 \<and> \<bar>target_px - pv 0.0625\<bar> \<le> res)"
proof -
  have gen: "secant_while pv' t' res max_tries (secant_init pv' t') = Loop_end (secant_init pv' t')
             \<and> secant_solve pv' t' res max_tries = Return_x_n (1 / 16)"
    if "\<bar>t' - pv' (1 / 16)\<bar> \<le> res" for pv' t'
  proof -
    have "secant_while pv' t' res max_tries (secant_init pv' t') = Loop_end (secant_init pv' t')"
      using that by (intro secant_while_end) (simp add: ABS_abs)
    then show ?thesis
      using assms by (simp add: secant_solve_def)
  qed
  have a: "\<bar>target_px - pv 0.0625\<bar> \<le> res \<longrightarrow>
           secant_while pv target_px res max_tries (secant_init pv target_px) =
             Loop_end (secant_init pv target_px) \<and>
           secant_solve pv target_px res max_tries = Return_x_n 0.0625"
    using gen [of target_px pv] by simp
  have b: "\<bar>target_px - compute_pv cfs dates libor num_cfs is_clean accrued_interest
              year_convention 0.0625\<bar> \<le> res \<longrightarrow>
         backsolve_cf_core cfs dates libor num_cfs target_px res max_tries is_clean
           accrued_interest year_convention = 0.0625"
    using gen [of target_px "compute_pv cfs dates libor num_cfs is_clean accrued_interest
              year_convention"]
    by (simp add: backsolve_cf_core_def)
  have c: "\<bar>0 - compute_pv_for_irr cfs dates num_cfs is_clean accrued_interest 0.0625\<bar>
           \<le> res \<longrightarrow>
         backsolve_irr_core cfs dates num_cfs res max_tries is_clean accrued_interest
           = 0.0625"
    using gen [of 0 "compute_pv_for_irr cfs dates num_cfs is_clean accrued_interest"]
    by (simp add: backsolve_irr_core_def)
  have d: "secant_while pv target_px res max_tries (secant_init pv target_px) = Loop_end s \<and>
          trials s = 0 \<longrightarrow>
           x_n s = 0.0625 \<and> \<bar>target_px - pv 0.0625\<bar> \<le> res"
  proof
    assume h: "secant_while pv target_px res max_tries (secant_init pv target_px) = Loop_end s \<and>
          trials s = 0"
    then have "s = secant_init pv target_px \<and>
        \<not> (ABS (f_n (secant_init pv target_px)) > res \<and>
           trials (secant_init pv target_px) < max_tries)"
      using secant_while_no_iteration [of pv target_px res max_tries "secant_init pv target_px" s]
      by simp
    then show "x_n s = 0.0625 \<and> \<bar>target_px - pv 0.0625\<bar> \<le> res"
      using assms by (simp add: ABS_abs)
  qed
  show ?thesis
    by (intro conjI) (rule a, rule b, rule c, rule d)
qed

text \<open>
  One entry of 100 after a year, zero reference rate: the present value at 0.0625 is
  \<open>1600 / 17\<close>; a stream of one zero amount for the yield solver.
\<close>

theorem second_seed_success_witness:
  "(1::int) \<le> 10 \<and>
   \<bar>1600 / 17 - compute_pv [100] [365] [0] 1 False 0 365 0.0625\<bar> \<le> 1 / 1000 \<and>
   secant_while (compute_pv [100] [365] [0] 1 False 0 365) (1600 / 17) (1 / 1000) 10
       (secant_init (compute_pv [100] [365] [0] 1 False 0 365) (1600 / 17))
     = Loop_end (secant_init (compute_pv [100] [365] [0] 1 False 0 365) (1600 / 17)) \<and>
   trials (secant_init (compute_pv [100] [365] [0] 1 False 0 365) (1600 / 17)) = 0 \<and>
   x_n (secant_init (compute_pv [100] [365] [0] 1 False 0 365) (1600 / 17)) = 0.0625 \<and>
   secant_solve (compute_pv [100] [365] [0] 1 False 0 365) (1600 / 17) (1 / 1000) 10
     = Return_x_n 0.0625 \<and>
   backsolve_cf_core [100] [365] [0] 1 (1600 / 17) (1 / 1000) 10 False 0 365 = 0.0625 \<and>
   \<bar>0 - compute_pv_for_irr [0] [365] 1 False 0 0.0625\<bar> \<le> 1 / 1000 \<and>
   backsolve_irr_core [0] [365] 1 (1 / 1000) 10 False 0 = 0.0625"
proof -
  let ?pv = "compute_pv [100] [365] [0] 1 False 0 365"
  have pv: "?pv (1 / 16) = 1600 / 17"
    by (simp add: compute_pv_1)
  have irr: "compute_pv_for_irr [0] [365] 1 False 0 (1 / 16) = 0"
    by (simp add: compute_pv_for_irr_single)
  note t1 = second_seed_success [where max_tries = 10 and target_px = "1600 / 17"
      and pv = ?pv and res = "1 / 1000"
      and cfs = "[100]" and dates = "[365]" and libor = "[0]" and num_cfs = 1
      and is_clean = False and accrued_interest = 0 and year_convention = 365
      and s = "secant_init ?pv (1600 / 17)"]
  note t2 = second_seed_success [where max_tries = 10 and target_px = 0
      and pv = ?pv and res = "1 / 1000"
      and cfs = "[0]" and dates = "[365]" and libor = "[0]" and num_cfs = 1
      and is_clean = False and accrued_interest = 0 and year_convention = 365
      and s = "secant_init ?pv 0"]
  show ?thesis
    using t1 t2 by (simp add: pv irr)
qed

section \<open>Convergence on the last permitted iteration\<close>

text \<open>
  C1. The claim is that an iteration that brings \<open>|f(x_n)|\<close> within \<open>res\<close> is reported as
  success even when it is the \<open>max_tries\<close>-th one. The source tests \<^verbatim>\<open>trials >= max_tries\<close> after
  the loop, not the residual. For one entry of 100 at day 365, zero reference rate, year
  convention 365, target 100 and tolerance 1, the first secant step goes from 0.0625 to
  \<open>-3/800\<close>, where the residual is \<open>-300/797\<close>, within the tolerance: with a cap of two
  iterations this point is returned, with a cap of one the same point is reported as
  ``failed to converge''.
\<close>

theorem converged_on_last_trial_is_reported_as_failure:
  "\<bar>100 - compute_pv [100] [365] [0] 1 False 0 365 (- 3 / 800)\<bar> \<le> 1 \<and>
   secant_solve (compute_pv [100] [365] [0] 1 False 0 365) 100 1 2 = Return_x_n (- 3 / 800) \<and>
   secant_solve (compute_pv [100] [365] [0] 1 False 0 365) 100 1 1 = Return_neg998 \<and>
   backsolve_cf [100] [365] [0] 1 100 1 1 False 0 365 = Raise (RuntimeError converge_message)"
proof -
  let ?pv = "compute_pv [100] [365] [0] 1 False 0 365"
  let ?s0 = "secant_init ?pv 100"
  let ?s1 = "\<lparr>x_n_minus_1 = 1 / 16, x_n = - 3 / 800, f_n_minus_1 = 100 / 17,
             f_n = - 300 / 797, trials = 1\<rparr>"
  have step: "secant_while ?pv 100 1 m ?s0 = secant_while ?pv 100 1 m ?s1" if "0 < m" for m
    using that by (subst secant_while_step) (simp_all add: ABS_def compute_pv_1)
  have two: "secant_while ?pv 100 1 2 ?s0 = Loop_end ?s1"
    by (simp add: step secant_while_end ABS_def)
  have one: "secant_while ?pv 100 1 1 ?s0 = Loop_end ?s1"
    by (simp add: step secant_while_end ABS_def)
  have r2: "secant_solve ?pv 100 1 2 = Return_x_n (- 3 / 800)"
    by (simp add: secant_solve_def two)
  have r1: "secant_solve ?pv 100 1 1 = Return_neg998"
    by (simp add: secant_solve_def one)
  have w: "backsolve_cf [100] [365] [0] 1 100 1 1 False 0 365 = Raise (RuntimeError converge_message)"
    by (simp add: backsolve_cf_def copy_cf_1 backsolve_cf_core_def r1 result_of_double_def)
  have res: "\<bar>100 - ?pv (- 3 / 800)\<bar> \<le> 1"
    by (simp add: compute_pv_1)
  from res r2 r1 w show ?thesis by blast
qed

section \<open>Round trip against the spread model\<close>

text \<open>
  C2, as the code has it. For every stream and every spread \<open>s\<close>, in every arithmetic: when the
  spread backsolver is run with the target set to the spread-model present value at \<open>s\<close> and
  leaves through \<^verbatim>\<open>return x_n\<close>, the comparison \<^verbatim>\<open>ABS(f_n) > res\<close> is false for the residual
  \<open>f_n\<close> of the returned spread, the target less the present value there. So the residual is
  within the tolerance, or it is not a number: a trial spread at which a discount denominator
  is zero has an infinite or NaN present value, and every comparison with a NaN is false. The
  same holds whenever the entry point, given arrays of \<^verbatim>\<open>num_cfs\<close> entries, returns a number.
  That the solver does leave through \<^verbatim>\<open>return x_n\<close> is not guaranteed.
\<close>

theorem round_trip_residual_when_solved:
  "(fp_secant_solve A
      (fp_compute_pv A cfs dates libor num_cfs is_clean accrued_interest year_convention)
      (fp_compute_pv A cfs dates libor num_cfs is_clean accrued_interest year_convention s)
      res max_tries = Fp_x_n x \<longrightarrow>
    \<not> d_lt A res
        (fp_ABS A
           (d_sub A
              (fp_compute_pv A cfs dates libor num_cfs is_clean accrued_interest
                 year_convention s)
              (fp_compute_pv A cfs dates libor num_cfs is_clean accrued_interest
                 year_convention x)))) \<and>
   (sentinels_compare A \<and>
    length cfs = nat num_cfs \<and> length dates = nat num_cfs \<and> length libor = nat num_cfs \<and>
    fp_backsolve_cf A cfs dates libor num_cfs
      (fp_compute_pv A cfs dates libor num_cfs is_clean accrued_interest year_convention s)
      res max_tries is_clean accrued_interest year_convention = Fp_float x \<longrightarrow>
    \<not> d_lt A res
        (fp_ABS A
           (d_sub A
              (fp_compute_pv A cfs dates libor num_cfs is_clean accrued_interest
                 year_convention s)
              (fp_compute_pv A cfs dates libor num_cfs is_clean accrued_interest
                 year_convention x))))"
proof (intro conjI impI)
  assume "fp_secant_solve A
      (fp_compute_pv A cfs dates libor num_cfs is_clean accrued_interest year_convention)
      (fp_compute_pv A cfs dates libor num_cfs is_clean accrued_interest year_convention s)
      res max_tries = Fp_x_n x"
  then show "\<not> d_lt A res
        (fp_ABS A
           (d_sub A
              (fp_compute_pv A cfs dates libor num_cfs is_clean accrued_interest
                 year_convention s)
              (fp_compute_pv A cfs dates libor num_cfs is_clean accrued_interest
                 year_convention x)))"
    by (rule fp_secant_solve_x_n)
next
  assume h: "sentinels_compare A \<and>
    length cfs = nat num_cfs \<and> length dates = nat num_cfs \<and> length libor = nat num_cfs \<and>
    fp_backsolve_cf A cfs dates libor num_cfs
      (fp_compute_pv A cfs dates libor num_cfs is_clean accrued_interest year_convention s)
      res max_tries is_clean accrued_interest year_convention = Fp_float x"
  have "fp_secant_solve A
      (fp_compute_pv A cfs dates libor num_cfs is_clean accrued_interest year_convention)
      (fp_compute_pv A cfs dates libor num_cfs is_clean accrued_interest year_convention s)
      res max_tries = Fp_x_n x"
    using h by (intro fp_backsolve_cf_float_same_arrays) simp_all
  then show "\<not> d_lt A res
        (fp_ABS A
           (d_sub A
              (fp_compute_pv A cfs dates libor num_cfs is_clean accrued_interest
                 year_convention s)
              (fp_compute_pv A cfs dates libor num_cfs is_clean accrued_interest
                 year_convention x)))"
    by (rule fp_secant_solve_x_n)
qed

text \<open>
  One entry of 100 after a year, priced at spread 0, tolerance 1, two iterations allowed, in
  the exact arithmetic, where ``not greater'' is ``at most''.
\<close>

theorem round_trip_residual_when_solved_witness:
  "fp_secant_solve exact (fp_compute_pv exact [100] [365] [0] 1 False 0 365)
     (fp_compute_pv exact [100] [365] [0] 1 False 0 365 0) 1 2 = Fp_x_n (- 3 / 800) \<and>
   sentinels_compare exact \<and>
   length [100::double] = nat 1 \<and> length [365::double] = nat 1 \<and> length [0::double] = nat 1 \<and>
   fp_backsolve_cf exact [100] [365] [0] 1 (fp_compute_pv exact [100] [365] [0] 1 False 0 365 0)
     1 2 False 0 365 = Fp_float (- 3 / 800) \<and>
   \<bar>fp_compute_pv exact [100] [365] [0] 1 False 0 365 0
     - fp_compute_pv exact [100] [365] [0] 1 False 0 365 (- 3 / 800)\<bar> \<le> 1"
proof -
  let ?pv = "fp_compute_pv exact [100] [365] [0] 1 False 0 365"
  have p: "?pv = compute_pv [100] [365] [0] 1 False 0 365"
    by (rule ext) (rule fp_compute_pv_exact)
  have t: "?pv 0 = 100"
    by (simp add: p compute_pv_1)
  have h: "fp_secant_solve exact ?pv (?pv 0) 1 2 = Fp_x_n (- 3 / 800)"
    unfolding t by (simp add: p fp_secant_solve_exact exact_one_step)
  have w: "fp_backsolve_cf exact [100] [365] [0] 1 (?pv 0) 1 2 False 0 365
      = Fp_float (- 3 / 800)"
    unfolding t
    by (simp add: fp_backsolve_cf_exact backsolve_cf_def copy_cf_1 backsolve_cf_core_def
        exact_one_step result_of_double_def)
  have "\<not> d_lt exact 1 (fp_ABS exact (d_sub exact (?pv 0) (?pv (- 3 / 800))))"
    using round_trip_residual_when_solved [where A = exact and cfs = "[100]" and dates = "[365]"
        and libor = "[0]" and num_cfs = 1 and is_clean = False and accrued_interest = 0
        and year_convention = 365 and s = 0 and res = 1 and max_tries = 2 and x = "- 3 / 800"] h
    by blast
  then have r: "\<bar>?pv 0 - ?pv (- 3 / 800)\<bar> \<le> 1"
    by (simp add: fp_ABS_exact ABS_abs exact_ops)
  from h sentinels_compare_exact w r show ?thesis
    by simp
qed

text \<open>
  C2 as stated fails: the same stream priced at spread 0 (present value 100), with the valid
  tolerance \<open>1/1000\<close> and the valid cap of one iteration. After the one secant step the residual
  at \<open>-3/800\<close> is \<open>300/797\<close>, far outside the tolerance, and the backsolver raises
  ``failed to converge''.
\<close>

theorem round_trip_counterexample:
  "increasing_after 0 [365] \<and> (0::real) \<le> 1 / 1000 \<and> (1::int) \<le> 1 \<and>
   compute_pv [100] [365] [0] 1 False 0 365 0 = 100 \<and>
   backsolve_cf [100] [365] [0] 1 (compute_pv [100] [365] [0] 1 False 0 365 0) (1 / 1000) 1
     False 0 365 = Raise (RuntimeError converge_message) \<and>
   1 / 1000 < \<bar>100 - compute_pv [100] [365] [0] 1 False 0 365 (- 3 / 800)\<bar>"
proof -
  let ?pv = "compute_pv [100] [365] [0] 1 False 0 365"
  let ?s0 = "secant_init ?pv 100"
  let ?s1 = "\<lparr>x_n_minus_1 = 1 / 16, x_n = - 3 / 800, f_n_minus_1 = 100 / 17,
             f_n = - 300 / 797, trials = 1\<rparr>"
  have t: "?pv 0 = 100"
    by (simp add: compute_pv_1)
  have "secant_while ?pv 100 (1 / 1000) 1 ?s0 = secant_while ?pv 100 (1 / 1000) 1 ?s1"
    by (subst secant_while_step) (simp_all add: ABS_def compute_pv_1)
  then have "secant_while ?pv 100 (1 / 1000) 1 ?s0 = Loop_end ?s1"
    by (simp add: secant_while_end)
  then have "secant_solve ?pv 100 (1 / 1000) 1 = Return_neg998"
    by (simp add: secant_solve_def)
  then have w: "backsolve_cf [100] [365] [0] 1 (?pv 0) (1 / 1000) 1 False 0 365
      = Raise (RuntimeError converge_message)"
    by (simp add: t backsolve_cf_def copy_cf_1 backsolve_cf_core_def result_of_double_def)
  have r: "1 / 1000 < \<bar>100 - ?pv (- 3 / 800)\<bar>"
    by (simp add: compute_pv_1)
  from t w r show ?thesis by simp
qed

section \<open>Equal consecutive residuals\<close>

text \<open>
  C5, as the code has it. The degenerate-slope test sits inside the loop body, behind the loop
  condition. Whenever an iteration is entered (residual outside the tolerance, \<^verbatim>\<open>trials\<close> below
  the cap) with \<open>f(x_n) = f(x_n-1)\<close> exactly, the solver leaves through \<^verbatim>\<open>return -999.0\<close> at once,
  before the division. For a present value that is constant in the trial rate (all amounts
  zero, for one) and \<open>max_tries \<ge> 1\<close>: if the constant residual is outside the tolerance this
  happens on the first iteration; if it is within the tolerance the solver returns the seed
  0.0625 instead.
\<close>

theorem degenerate_step_when_iterating:
  "(res < \<bar>f_n s\<bar> \<and> trials s < max_tries \<and> f_n s = f_n_minus_1 s \<longrightarrow>
      secant_while pv target_px res max_tries s = Return_in_body s) \<and>
   ((\<forall>x. pv x = k) \<and> res < \<bar>target_px - k\<bar> \<and> 1 \<le> max_tries \<longrightarrow>
      secant_while pv target_px res max_tries (secant_init pv target_px) =
        Return_in_body (secant_init pv target_px) \<and>
      secant_solve pv target_px res max_tries = Return_neg999) \<and>
   ((\<forall>x. pv x = k) \<and> \<bar>target_px - k\<bar> \<le> res \<and> 1 \<le> max_tries \<longrightarrow>
      secant_solve pv target_px res max_tries = Return_x_n 0.0625) \<and>
   (0 < num_cfs \<and> cfs = replicate (nat num_cfs) 0 \<longrightarrow>
      compute_pv cfs dates libor num_cfs is_clean accrued_interest year_convention x =
        - (if is_clean then accrued_interest else 0) \<and>
      compute_pv_for_irr cfs dates num_cfs is_clean accrued_interest x =
        - (if is_clean then accrued_interest else 0))"
proof -
  have a: "res < \<bar>f_n s\<bar> \<and> trials s < max_tries \<and> f_n s = f_n_minus_1 s \<longrightarrow>
      secant_while pv target_px res max_tries s = Return_in_body s"
    by (auto intro: secant_while_degenerate simp: ABS_abs)
  have b: "(\<forall>x. pv x = k) \<and> res < \<bar>target_px - k\<bar> \<and> 1 \<le> max_tries \<longrightarrow>
      secant_while pv target_px res max_tries (secant_init pv target_px) =
        Return_in_body (secant_init pv target_px) \<and>
      secant_solve pv target_px res max_tries = Return_neg999"
  proof
    assume h: "(\<forall>x. pv x = k) \<and> res < \<bar>target_px - k\<bar> \<and> 1 \<le> max_tries"
    then have "secant_while pv target_px res max_tries (secant_init pv target_px) =
        Return_in_body (secant_init pv target_px)"
      by (intro secant_while_degenerate) (simp_all add: ABS_abs)
    then show "secant_while pv target_px res max_tries (secant_init pv target_px) =
        Return_in_body (secant_init pv target_px) \<and>
      secant_solve pv target_px res max_tries = Return_neg999"
      by (simp add: secant_solve_def)
  qed
  have c: "(\<forall>x. pv x = k) \<and> \<bar>target_px - k\<bar> \<le> res \<and> 1 \<le> max_tries \<longrightarrow>
      secant_solve pv target_px res max_tries = Return_x_n 0.0625"
  proof
    assume h: "(\<forall>x. pv x = k) \<and> \<bar>target_px - k\<bar> \<le> res \<and> 1 \<le> max_tries"
    then have "secant_while pv target_px res max_tries (secant_init pv target_px) =
        Loop_end (secant_init pv target_px)"
      by (intro secant_while_end) (simp add: ABS_abs)
    with h show "secant_solve pv target_px res max_tries = Return_x_n 0.0625"
      by (simp add: secant_solve_def)
  qed
  have d: "0 < num_cfs \<and> cfs = replicate (nat num_cfs) 0 \<longrightarrow>
      compute_pv cfs dates libor num_cfs is_clean accrued_interest year_convention x =
        - (if is_clean then accrued_interest else 0) \<and>
      compute_pv_for_irr cfs dates num_cfs is_clean accrued_interest x =
        - (if is_clean then accrued_interest else 0)"
  proof
    assume "0 < num_cfs \<and> cfs = replicate (nat num_cfs) 0"
    then have h: "0 < num_cfs" "cfs = replicate (nat num_cfs) 0"
      by simp_all
    show "compute_pv cfs dates libor num_cfs is_clean accrued_interest year_convention x =
        - (if is_clean then accrued_interest else 0) \<and>
      compute_pv_for_irr cfs dates num_cfs is_clean accrued_interest x =
        - (if is_clean then accrued_interest else 0)"
      using compute_pv_zero_stream [OF h] compute_pv_for_irr_zero_stream [OF h] by (rule conjI)
  qed
  show ?thesis
    by (intro conjI) (rule a, rule b, rule c, rule d)
qed

text \<open>
  A state with equal residuals 7 outside the tolerance 1; and the yield solver on two zero
  amounts, priced clean with accrued interest 5, so that the residual is 5 at every rate.
\<close>

theorem degenerate_step_when_iterating_witness:
  "(1::real) < \<bar>f_n \<lparr>x_n_minus_1 = 0, x_n = 1, f_n_minus_1 = 7, f_n = 7, trials = 3\<rparr>\<bar> \<and>
   secant_while (\<lambda>x. 0) 7 1 5 \<lparr>x_n_minus_1 = 0, x_n = 1, f_n_minus_1 = 7, f_n = 7, trials = 3\<rparr>
     = Return_in_body \<lparr>x_n_minus_1 = 0, x_n = 1, f_n_minus_1 = 7, f_n = 7, trials = 3\<rparr> \<and>
   replicate (nat 2) (0::double) = [0, 0] \<and>
   compute_pv [0, 0] [365, 730] [0, 0] 2 True 5 365 (- 999) = - 5 \<and>
   (\<forall>x. compute_pv_for_irr [0, 0] [365, 730] 2 True 5 x = - 5) \<and>
   (1::real) < \<bar>0 - (- 5)\<bar> \<and> (1::int) \<le> 10 \<and>
   secant_solve (compute_pv_for_irr [0, 0] [365, 730] 2 True 5) 0 1 10 = Return_neg999 \<and>
   backsolve_irr [0, 0] [365, 730] 2 1 10 True 5 = Raise (ZeroDivError zero_div_message) \<and>
   \<bar>0 - (- 5)\<bar> \<le> (5::real) \<and>
   secant_solve (compute_pv_for_irr [0, 0] [365, 730] 2 True 5) 0 5 10 = Return_x_n 0.0625"
proof -
  let ?s = "\<lparr>x_n_minus_1 = 0, x_n = 1, f_n_minus_1 = 7, f_n = 7, trials = 3\<rparr>"
  let ?pv = "compute_pv_for_irr [0, 0] [365, 730] 2 True 5"
  have rep: "replicate (nat 2) (0::double) = [0, 0]"
    by (simp add: numeral_2_eq_2)
  note t0 = degenerate_step_when_iterating [where s = ?s and res = 1 and max_tries = 5
      and pv = "\<lambda>x. 0" and target_px = 7 and k = 0 and num_cfs = 2 and cfs = "[0, 0]"
      and dates = "[365, 730]" and libor = "[0, 0]" and is_clean = True
      and accrued_interest = 5 and year_convention = 365, unfolded rep]
  have z: "?pv x = - 5" for x
    using t0 [where x = x] by simp
  have y: "compute_pv [0, 0] [365, 730] [0, 0] 2 True 5 365 (- 999) = - 5"
    using t0 [where x = "- 999"] by simp
  note t2 = degenerate_step_when_iterating [where s = ?s and res = 1 and max_tries = 10
      and pv = ?pv and target_px = 0 and k = "- 5"]
  note t3 = degenerate_step_when_iterating [where s = ?s and res = 5 and max_tries = 10
      and pv = ?pv and target_px = 0 and k = "- 5"]
  have r1: "secant_while (\<lambda>x. 0) 7 1 5 ?s = Return_in_body ?s"
    using t0 by simp
  have r2: "secant_solve ?pv 0 1 10 = Return_neg999"
    using t2 by (simp add: z)
  have r3: "secant_solve ?pv 0 5 10 = Return_x_n 0.0625"
    using t3 by (simp add: z)
  have w: "backsolve_irr [0, 0] [365, 730] 2 1 10 True 5 = Raise (ZeroDivError zero_div_message)"
    using r2 by (simp add: backsolve_irr_def copy_irr_2 backsolve_irr_core_def result_of_double_def)
  show ?thesis
    using r1 r2 r3 w y rep by (simp add: z)
qed

text \<open>
  C5 as stated fails on its own example: two zero amounts given to the yield solver, dirty,
  tolerance \<open>1/1000\<close>, ten iterations allowed. The present value is 0 at both seeds, the two
  residuals are equal, and the residual 0 is within the tolerance: the loop is never entered
  and the solver returns 0.0625.
\<close>

theorem zero_stream_counterexample:
  "compute_pv_for_irr [0, 0] [365, 730] 2 False 0 0.06 = 0 \<and>
   compute_pv_for_irr [0, 0] [365, 730] 2 False 0 0.0625 = 0 \<and>
   secant_solve (compute_pv_for_irr [0, 0] [365, 730] 2 False 0) 0 (1 / 1000) 10
     = Return_x_n 0.0625 \<and>
   backsolve_irr [0, 0] [365, 730] 2 (1 / 1000) 10 False 0 = Float 0.0625"
proof -
  let ?pv = "compute_pv_for_irr [0, 0] [365, 730] 2 False 0"
  have z: "?pv x = 0" for x
    by (simp add: compute_pv_for_irr_zero2)
  have "secant_while ?pv 0 (1 / 1000) 10 (secant_init ?pv 0) = Loop_end (secant_init ?pv 0)"
    by (intro secant_while_end) (simp add: ABS_def z)
  then have r: "secant_solve ?pv 0 (1 / 1000) 10 = Return_x_n 0.0625"
    by (simp add: secant_solve_def)
  then have "backsolve_irr [0, 0] [365, 730] 2 (1 / 1000) 10 False 0 = Float 0.0625"
    by (simp add: backsolve_irr_def copy_irr_2 backsolve_irr_core_def result_of_double_def)
  with z r show ?thesis by simp
qed

section \<open>A stream of one entry under the yield model\<close>

text \<open>
  C9, as the code has it. For a stream of one entry the yield-model present value is
  \<open>amount[0]\<close>, less accrued interest when clean, at every trial yield (the only exponent is 0,
  and \<^verbatim>\<open>pow(x, 0)\<close> is 1). With \<open>max_tries \<ge> 1\<close> the yield backsolver therefore never returns
  a computed yield: it leaves through \<^verbatim>\<open>return -999.0\<close> when that value exceeds the tolerance in
  absolute value, and returns the seed 0.0625 otherwise.
\<close>

theorem single_entry_irr:
  assumes "1 \<le> max_tries"
  shows "compute_pv_for_irr cfs dates 1 is_clean accrued_interest y =
           cfs ! 0 - (if is_clean then accrued_interest else 0) \<and>
         secant_solve (compute_pv_for_irr cfs dates 1 is_clean accrued_interest) 0 res max_tries =
           (if res < \<bar>cfs ! 0 - (if is_clean then accrued_interest else 0)\<bar> then Return_neg999
            else Return_x_n 0.0625) \<and>
         backsolve_irr_core cfs dates 1 res max_tries is_clean accrued_interest =
           (if res < \<bar>cfs ! 0 - (if is_clean then accrued_interest else 0)\<bar> then - 999
            else 0.0625) \<and>
         (0 < dayOffset \<longrightarrow>
            backsolve_irr [amount] [dayOffset] 1 res max_tries is_clean accrued_interest =
              (if res < \<bar>amount - (if is_clean then accrued_interest else 0)\<bar>
               then Raise (ZeroDivError zero_div_message) else Float 0.0625))"
proof -
  have s: "secant_solve (compute_pv_for_irr c d 1 is_clean accrued_interest) 0 res max_tries =
           (if res < \<bar>c ! 0 - (if is_clean then accrued_interest else 0)\<bar> then Return_neg999
            else Return_x_n 0.0625)" for c d
  proof -
    let ?pv = "compute_pv_for_irr c d 1 is_clean accrued_interest"
    let ?k = "c ! 0 - (if is_clean then accrued_interest else 0)"
    let ?s = "secant_init ?pv 0"
    have k: "?pv x = ?k" for x
      by (rule compute_pv_for_irr_single)
    show ?thesis
    proof (cases "res < \<bar>?k\<bar>")
      case True
      then have "ABS (f_n ?s) > res"
        by (auto simp: ABS_abs k)
      then have "secant_while ?pv 0 res max_tries ?s = Return_in_body ?s"
        using assms by (intro secant_while_degenerate) (simp_all add: k)
      with True show ?thesis
        by (simp add: secant_solve_def)
    next
      case False
      then have "\<not> ABS (f_n ?s) > res"
        by (auto simp: ABS_abs k)
      then have "secant_while ?pv 0 res max_tries ?s = Loop_end ?s"
        by (intro secant_while_end) simp
      with False assms show ?thesis
        by (simp add: secant_solve_def)
    qed
  qed
  have a: "compute_pv_for_irr cfs dates 1 is_clean accrued_interest y =
           cfs ! 0 - (if is_clean then accrued_interest else 0)"
    by (rule compute_pv_for_irr_single)
  have c: "backsolve_irr_core cfs dates 1 res max_tries is_clean accrued_interest =
           (if res < \<bar>cfs ! 0 - (if is_clean then accrued_interest else 0)\<bar> then - 999
            else 0.0625)"
    unfolding backsolve_irr_core_def s by simp
  have d: "0 < dayOffset \<longrightarrow>
            backsolve_irr [amount] [dayOffset] 1 res max_tries is_clean accrued_interest =
              (if res < \<bar>amount - (if is_clean then accrued_interest else 0)\<bar>
               then Raise (ZeroDivError zero_div_message) else Float 0.0625)"
    unfolding backsolve_irr_def backsolve_irr_core_def s
    by (simp add: copy_irr_1 result_of_double_def)
  show ?thesis
    by (intro conjI) (rule a, rule s, rule c, rule d)
qed

text \<open>One entry of 100, clean with accrued interest 2, tolerances 1 and 98.\<close>

theorem single_entry_irr_witness:
  "(1::int) \<le> 10 \<and> (0::real) < 365 \<and>
   compute_pv_for_irr [100] [365] 1 True 2 (- 1 / 2) = 98 \<and>
   secant_solve (compute_pv_for_irr [100] [365] 1 True 2) 0 1 10 = Return_neg999 \<and>
   backsolve_irr_core [100] [365] 1 1 10 True 2 = - 999 \<and>
   backsolve_irr [100] [365] 1 1 10 True 2 = Raise (ZeroDivError zero_div_message) \<and>
   backsolve_irr_core [100] [365] 1 98 10 True 2 = 0.0625 \<and>
   backsolve_irr [100] [365] 1 98 10 True 2 = Float 0.0625"
  using single_entry_irr [of 10 "[100]" "[365]" True 2 "- 1 / 2" 1 365 100]
    single_entry_irr [of 10 "[100]" "[365]" True 2 "- 1 / 2" 98 365 100]
  by simp

text \<open>
  C9 as stated fails when no iteration is allowed: with \<open>max_tries = 0\<close>, which the entry point
  accepts, the loop is not entered, so one entry of 100 with the tolerance 1, where the claim
  has a degenerate step, gives \<^verbatim>\<open>-998.0\<close> (``failed to converge'').
\<close>

theorem single_entry_irr_counterexample:
  "\<not> (1::int) \<le> 0 \<and> (0::real) < 365 \<and> (1::real) < \<bar>100 - 0\<bar> \<and>
   secant_solve (compute_pv_for_irr [100] [365] 1 False 0) 0 1 0 = Return_neg998 \<and>
   backsolve_irr_core [100] [365] 1 1 0 False 0 = - 998 \<and>
   backsolve_irr [100] [365] 1 1 0 False 0 = Raise (RuntimeError converge_message)"
proof -
  let ?pv = "compute_pv_for_irr [100] [365] 1 False 0"
  have "secant_while ?pv 0 1 0 (secant_init ?pv 0) = Loop_end (secant_init ?pv 0)"
    by (intro secant_while_end) simp
  then have s: "secant_solve ?pv 0 1 0 = Return_neg998"
    by (simp add: secant_solve_def)
  then have c: "backsolve_irr_core [100] [365] 1 1 0 False 0 = - 998"
    by (simp add: backsolve_irr_core_def)
  then have w: "backsolve_irr [100] [365] 1 1 0 False 0 = Raise (RuntimeError converge_message)"
    by (simp add: backsolve_irr_def copy_irr_1 result_of_double_def)
  from s c w show ?thesis by simp
qed

section \<open>What the entry points check\<close>

text \<open>
  C7, as the code has it. With arrays of exactly \<^verbatim>\<open>num_cfs\<close> entries, both entry points check
  \<open>num_cfs \<ge> 1\<close> and that the day offsets are strictly increasing with the first above 0, and
  raise \<^verbatim>\<open>RuntimeError\<close> with the message for the violated condition instead of calling the
  numeric core. Nothing else is checked: for every tolerance and every iteration cap a stream
  that passes is handed to the core, and the outcome is the decoding of what the core
  returns.
\<close>

theorem boundary_checks:
  "(num_cfs < 1 \<longrightarrow>
      backsolve_cf cfs dates libor num_cfs target_px res max_tries is_clean
        accrued_interest year_convention = Raise (RuntimeError empty_message) \<and>
      backsolve_irr cfs dates num_cfs res max_tries is_clean accrued_interest
        = Raise (RuntimeError empty_message)) \<and>
   (1 \<le> num_cfs \<and> length cfs = nat num_cfs \<and> length dates = nat num_cfs \<and>
    length libor = nat num_cfs \<and> \<not> increasing_after 0 dates \<longrightarrow>
      backsolve_cf cfs dates libor num_cfs target_px res max_tries is_clean
        accrued_interest year_convention = Raise (RuntimeError dates_message) \<and>
      backsolve_irr cfs dates num_cfs res max_tries is_clean accrued_interest
        = Raise (RuntimeError dates_message)) \<and>
   (1 \<le> num_cfs \<and> length cfs = nat num_cfs \<and> length dates = nat num_cfs \<and>
    length libor = nat num_cfs \<and> increasing_after 0 dates \<longrightarrow>
      backsolve_cf cfs dates libor num_cfs target_px res max_tries is_clean
        accrued_interest year_convention =
        result_of_double
          (backsolve_cf_core cfs dates libor num_cfs target_px res max_tries is_clean
             accrued_interest year_convention) \<and>
      backsolve_irr cfs dates num_cfs res max_tries is_clean accrued_interest =
        result_of_double
          (backsolve_irr_core cfs dates num_cfs res max_tries is_clean accrued_interest))"
proof -
  have cf: "copy_cf cfs dates libor num_cfs 0 0 [] [] [] =
      (if increasing_after 0 dates then Inr (cfs, dates, libor)
       else Inl (RuntimeError dates_message))"
    if "1 \<le> num_cfs" "length cfs = nat num_cfs" "length dates = nat num_cfs"
      "length libor = nat num_cfs"
    using that copy_cf_checks [of 0 num_cfs cfs dates libor 0 "[]" "[]" "[]"] by simp
  have irr: "copy_irr cfs dates num_cfs 0 0 [] [] =
      (if increasing_after 0 dates then Inr (cfs, dates)
       else Inl (RuntimeError dates_message))"
    if "1 \<le> num_cfs" "length cfs = nat num_cfs" "length dates = nat num_cfs"
    using that copy_irr_checks [of 0 num_cfs cfs dates 0 "[]" "[]"] by simp
  show ?thesis
    by (simp add: backsolve_cf_def backsolve_irr_def cf irr)
qed

text \<open>
  A call with \<open>num_cfs = 0\<close>, the day offsets \<open>[100, 100]\<close>, and a valid stream of two entries
  with the tolerance \<open>-1\<close> and the cap 0.
\<close>

theorem boundary_checks_witness:
  "backsolve_cf [100] [365] [0] 0 100 1 5 False 0 365 = Raise (RuntimeError empty_message) \<and>
   backsolve_irr [100] [365] 0 1 5 False 0 = Raise (RuntimeError empty_message) \<and>
   \<not> increasing_after 0 [100, 100] \<and>
   backsolve_cf [1, 1] [100, 100] [0, 0] 2 100 1 5 False 0 365
     = Raise (RuntimeError dates_message) \<and>
   backsolve_irr [1, 1] [100, 100] 2 1 5 False 0 = Raise (RuntimeError dates_message) \<and>
   increasing_after 0 [365, 730] \<and>
   backsolve_cf [5, 105] [365, 730] [0, 0] 2 100 (- 1) 0 False 0 365 =
     result_of_double (backsolve_cf_core [5, 105] [365, 730] [0, 0] 2 100 (- 1) 0 False 0 365) \<and>
   backsolve_irr [5, 105] [365, 730] 2 (- 1) 0 False 0 =
     result_of_double (backsolve_irr_core [5, 105] [365, 730] 2 (- 1) 0 False 0)"
  using boundary_checks [of 0 "[100]" "[365]" "[0]" 100 1 5 False 0 365]
    boundary_checks [of 2 "[1, 1]" "[100, 100]" "[0, 0]" 100 1 5 False 0 365]
    boundary_checks [of 2 "[5, 105]" "[365, 730]" "[0, 0]" 100 "- 1" 0 False 0 365]
  by simp

text \<open>
  C7 as stated fails: a negative tolerance and a zero iteration cap are not rejected. A valid
  stream with tolerance \<open>-1\<close> runs the core, which leaves through \<^verbatim>\<open>return -999.0\<close>
  (\<^verbatim>\<open>ZeroDivError\<close>, a failure of the core and of another class than the validation failures);
  a valid stream with \<open>max_tries = 0\<close> runs the core, which returns \<^verbatim>\<open>-998.0\<close>
  (``failed to converge'').
\<close>

theorem unchecked_parameters_counterexample:
  "length [0::double] = nat 1 \<and> increasing_after 0 [365] \<and> \<not> (0::real) \<le> - 1 \<and>
   secant_solve (compute_pv [0] [365] [0] 1 False 0 365) 0 (- 1) 5 = Return_neg999 \<and>
   backsolve_cf [0] [365] [0] 1 0 (- 1) 5 False 0 365 = Raise (ZeroDivError zero_div_message) \<and>
   \<not> (1::int) \<le> 0 \<and>
   secant_solve (compute_pv [100] [365] [0] 1 False 0 365) 100 1 0 = Return_neg998 \<and>
   backsolve_cf [100] [365] [0] 1 100 1 0 False 0 365 = Raise (RuntimeError converge_message)"
proof -
  let ?z = "compute_pv [0] [365] [0] 1 False 0 365"
  let ?pv = "compute_pv [100] [365] [0] 1 False 0 365"
  have "secant_while ?z 0 (- 1) 5 (secant_init ?z 0) = Return_in_body (secant_init ?z 0)"
    by (intro secant_while_degenerate) (simp_all add: ABS_def compute_pv_1)
  then have a: "secant_solve ?z 0 (- 1) 5 = Return_neg999"
    by (simp add: secant_solve_def)
  then have b: "backsolve_cf [0] [365] [0] 1 0 (- 1) 5 False 0 365
      = Raise (ZeroDivError zero_div_message)"
    by (simp add: backsolve_cf_def copy_cf_1 backsolve_cf_core_def result_of_double_def)
  have "secant_while ?pv 100 1 0 (secant_init ?pv 100) = Loop_end (secant_init ?pv 100)"
    by (intro secant_while_end) simp
  then have c: "secant_solve ?pv 100 1 0 = Return_neg998"
    by (simp add: secant_solve_def)
  then have d: "backsolve_cf [100] [365] [0] 1 100 1 0 False 0 365
      = Raise (RuntimeError converge_message)"
    by (simp add: backsolve_cf_def copy_cf_1 backsolve_cf_core_def result_of_double_def)
  from a b c d show ?thesis by simp
qed

section \<open>How outcomes reach the caller\<close>

text \<open>
  C6, as the code has it, in every arithmetic in which the two sentinel constants compare as
  they do in binary64. Each failure reaches the caller as an exception and never as a number:
  an empty stream and bad day offsets as \<^verbatim>\<open>RuntimeError\<close> with their own messages, an array too
  short as \<^verbatim>\<open>TypeError\<close>, \<^verbatim>\<open>return -999.0\<close> as \<^verbatim>\<open>ZeroDivError\<close>, \<^verbatim>\<open>return -998.0\<close> as
  \<^verbatim>\<open>RuntimeError\<close> ``failed to converge'', all distinct; a number reaches the caller only from
  \<^verbatim>\<open>return x_n\<close>, and it is that \<^verbatim>\<open>x_n\<close>. A rate handed back by \<^verbatim>\<open>return x_n\<close> reaches the
  caller as that number exactly when it compares unequal to both \<^verbatim>\<open>-999.0\<close> and \<^verbatim>\<open>-998.0\<close>;
  one that compares equal to \<^verbatim>\<open>-999.0\<close> is raised as \<^verbatim>\<open>ZeroDivError\<close> and one that compares
  equal to \<^verbatim>\<open>-998.0\<close> as ``failed to converge''.
\<close>

theorem outcome_encoding:
  assumes "sentinels_compare A"
  shows
  "fp_backsolve_cf A cfs dates libor num_cfs target_px res max_tries is_clean accrued_interest
       year_convention =
     (if num_cfs < 1 then Fp_raise (RuntimeError empty_message)
      else
        case fp_copy_cf A cfs dates libor num_cfs 0 (d_lit A 0.0) [] [] [] of
          Inl e \<Rightarrow> Fp_raise e
        | Inr (c_cfs, c_dates, c_libor) \<Rightarrow>
           (case fp_secant_solve A
                   (fp_compute_pv A c_cfs c_dates c_libor num_cfs is_clean accrued_interest
                      year_convention) target_px res max_tries of
              Fp_neg999 \<Rightarrow> Fp_raise (ZeroDivError zero_div_message)
            | Fp_neg998 \<Rightarrow> Fp_raise (RuntimeError converge_message)
            | Fp_x_n x \<Rightarrow>
                if d_eq A x (d_lit A (- 999.0)) then Fp_raise (ZeroDivError zero_div_message)
                else if d_eq A x (d_lit A (- 998.0))
                  then Fp_raise (RuntimeError converge_message)
                else Fp_float x)) \<and>
   fp_backsolve_irr A cfs dates num_cfs res max_tries is_clean accrued_interest =
     (if num_cfs < 1 then Fp_raise (RuntimeError empty_message)
      else
        case fp_copy_irr A cfs dates num_cfs 0 (d_lit A 0.0) [] [] of
          Inl e \<Rightarrow> Fp_raise e
        | Inr (c_cfs, c_dates) \<Rightarrow>
           (case fp_secant_solve A
                   (fp_compute_pv_for_irr A c_cfs c_dates num_cfs is_clean accrued_interest)
                   (d_lit A 0.0) res max_tries of
              Fp_neg999 \<Rightarrow> Fp_raise (ZeroDivError zero_div_message)
            | Fp_neg998 \<Rightarrow> Fp_raise (RuntimeError converge_message)
            | Fp_x_n x \<Rightarrow>
                if d_eq A x (d_lit A (- 999.0)) then Fp_raise (ZeroDivError zero_div_message)
                else if d_eq A x (d_lit A (- 998.0))
                  then Fp_raise (RuntimeError converge_message)
                else Fp_float x)) \<and>
   (fp_backsolve_cf A cfs dates libor num_cfs target_px res max_tries is_clean accrued_interest
       year_convention = Fp_float y \<longrightarrow>
      (\<exists>c_cfs c_dates c_libor.
         fp_copy_cf A cfs dates libor num_cfs 0 (d_lit A 0.0) [] [] []
           = Inr (c_cfs, c_dates, c_libor) \<and>
         fp_secant_solve A
           (fp_compute_pv A c_cfs c_dates c_libor num_cfs is_clean accrued_interest
              year_convention) target_px res max_tries = Fp_x_n y)) \<and>
   (fp_backsolve_irr A cfs dates num_cfs res max_tries is_clean accrued_interest = Fp_float y
      \<longrightarrow>
      (\<exists>c_cfs c_dates.
         fp_copy_irr A cfs dates num_cfs 0 (d_lit A 0.0) [] [] = Inr (c_cfs, c_dates) \<and>
         fp_secant_solve A
           (fp_compute_pv_for_irr A c_cfs c_dates num_cfs is_clean accrued_interest)
           (d_lit A 0.0) res max_tries = Fp_x_n y)) \<and>
   (fp_copy_cf A cfs dates libor num_cfs 0 (d_lit A 0.0) [] [] [] = Inl e \<longrightarrow>
      e = TypeError \<or> e = RuntimeError dates_message) \<and>
   (fp_copy_irr A cfs dates num_cfs 0 (d_lit A 0.0) [] [] = Inl e \<longrightarrow>
      e = TypeError \<or> e = RuntimeError dates_message) \<and>
   distinct [ZeroDivError zero_div_message, RuntimeError converge_message,
             RuntimeError dates_message, RuntimeError empty_message, TypeError]"
proof (intro conjI impI)
  show "distinct [ZeroDivError zero_div_message, RuntimeError converge_message,
             RuntimeError dates_message, RuntimeError empty_message, TypeError]"
    by simp
qed (rule fp_backsolve_cf_unfold [OF assms] fp_backsolve_irr_unfold [OF assms]
      fp_backsolve_cf_float [OF assms] fp_backsolve_irr_float [OF assms]
      fp_copy_cf_error fp_copy_irr_error, assumption?)+

text \<open>
  In the exact arithmetic: the stream of one entry of 100, for which the entry point returns
  \<open>-3/800\<close> and therefore the core has taken \<^verbatim>\<open>return x_n\<close> with that rate; and the day offsets
  \<open>[100, 100]\<close>, which stop the copying loop.
\<close>

theorem outcome_encoding_witness:
  "sentinels_compare exact \<and>
   fp_secant_solve exact (fp_compute_pv exact [100] [365] [0] 1 False 0 365) 100 1 2
     = Fp_x_n (- 3 / 800) \<and>
   fp_backsolve_cf exact [100] [365] [0] 1 100 1 2 False 0 365 = Fp_float (- 3 / 800) \<and>
   fp_copy_cf exact [1, 1] [100, 100] [0, 0] 2 0 (d_lit exact 0.0) [] [] []
     = Inl (RuntimeError dates_message) \<and>
   fp_backsolve_cf exact [1, 1] [100, 100] [0, 0] 2 100 1 5 False 0 365
     = Fp_raise (RuntimeError dates_message)"
proof -
  have p: "fp_compute_pv exact [100] [365] [0] 1 False 0 365
      = compute_pv [100] [365] [0] 1 False 0 365"
    by (rule ext) (rule fp_compute_pv_exact)
  have c: "fp_copy_cf exact [100] [365] [0] 1 0 0 [] [] [] = Inr ([100], [365], [0])"
    by (simp add: fp_copy_cf.simps fp_ary_entry_def exact_ops)
  have d: "fp_copy_cf exact [1, 1] [100, 100] [0, 0] 2 0 0 [] [] []
     = Inl (RuntimeError dates_message)"
    by (simp add: fp_copy_cf.simps fp_ary_entry_def exact_ops)
  have a: "fp_backsolve_cf exact [100] [365] [0] 1 100 1 2 False 0 365 = Fp_float (- 3 / 800)"
    by (simp add: fp_backsolve_cf_exact backsolve_cf_def copy_cf_1 backsolve_cf_core_def
        exact_one_step result_of_double_def)
  have "\<exists>c_cfs c_dates c_libor.
         fp_copy_cf exact [100] [365] [0] 1 0 (d_lit exact 0.0) [] [] []
           = Inr (c_cfs, c_dates, c_libor) \<and>
         fp_secant_solve exact (fp_compute_pv exact c_cfs c_dates c_libor 1 False 0 365) 100 1 2
           = Fp_x_n (- 3 / 800)"
    using outcome_encoding [OF sentinels_compare_exact, THEN conjunct2, THEN conjunct2,
        THEN conjunct1, rule_format, OF a] .
  then have s: "fp_secant_solve exact (fp_compute_pv exact [100] [365] [0] 1 False 0 365)
      100 1 2 = Fp_x_n (- 3 / 800)"
    by (auto simp: exact_ops c)
  have b: "fp_backsolve_cf exact [1, 1] [100, 100] [0, 0] 2 100 1 5 False 0 365
     = Fp_raise (RuntimeError dates_message)"
    by (subst outcome_encoding [OF sentinels_compare_exact, THEN conjunct1])
       (simp add: d exact_ops)
  from sentinels_compare_exact s a d b show ?thesis
    by (simp add: exact_ops)
qed

text \<open>
  C6 as stated fails at a rate that meets the tolerance and equals a sentinel, in binary64.
  The amounts \<open>-1693703\<close> and \<open>899198\<close> one and two years out, zero reference rates, year
  convention 365, target \<^verbatim>\<open>1697.9999999993597\<close>, tolerance \<^verbatim>\<open>0.001\<close>, ten iterations allowed.
  The seeds are the double nearest 0.06 and 0.0625; their residuals, about 799248 and 799250,
  differ by 2 exactly; the first secant step is \<^verbatim>\<open>0.0625 - 999.0625\<close>, the double \<open>-999\<close>; the
  residual there is \<^verbatim>\<open>-2815 / 2^42\<close>, about \<^verbatim>\<open>-6.4e-10\<close>, within the tolerance. The core
  leaves through \<^verbatim>\<open>return x_n\<close> with \<^verbatim>\<open>x_n == -999.0\<close> and the entry point raises
  \<^verbatim>\<open>ZeroDivError\<close>.
\<close>

theorem sentinel_collision_binary64:
  "sentinels_compare binary64 \<and>
   fp_secant_solve binary64
     (fp_compute_pv binary64 [- 1693703, 899198] [365, 730] [0, 0] 2 False 0 365)
     (d_lit binary64 1697.9999999993597) (d_lit binary64 0.001) 10 = Fp_x_n (- 999) \<and>
   d_sub binary64 (d_lit binary64 1697.9999999993597)
     (fp_compute_pv binary64 [- 1693703, 899198] [365, 730] [0, 0] 2 False 0 365 (- 999))
     = - (2815 / 2 ^ 42) \<and>
   d_le binary64
     (fp_ABS binary64
        (d_sub binary64 (d_lit binary64 1697.9999999993597)
           (fp_compute_pv binary64 [- 1693703, 899198] [365, 730] [0, 0] 2 False 0 365
              (- 999))))
     (d_lit binary64 0.001) \<and>
   fp_backsolve_cf binary64 [- 1693703, 899198] [365, 730] [0, 0] 2
     (d_lit binary64 1697.9999999993597) (d_lit binary64 0.001) 10 False 0 365
     = Fp_raise (ZeroDivError zero_div_message)"
proof -
  let ?pv = "fp_compute_pv binary64 [- 1693703, 899198] [365, 730] [0, 0] 2 False 0 365"
  let ?T = "29171417874421 / 17179869184 :: real"
  let ?res = "1152921504606847 / 1152921504606846976 :: real"
  let ?s0 = "\<lparr>fp_x_n_minus_1 = 1080863910568919 / 18014398509481984, fp_x_n = 1 / 16,
             fp_f_n_minus_1 = 3432744021393405 / 4294967296,
             fp_f_n = 3432752611327997 / 4294967296, fp_trials = 0\<rparr> :: real fp_state"
  let ?s1 = "\<lparr>fp_x_n_minus_1 = 1 / 16, fp_x_n = - 999,
             fp_f_n_minus_1 = 3432752611327997 / 4294967296,
             fp_f_n = - (2815 / 4398046511104), fp_trials = 1\<rparr> :: real fp_state"
  have T: "d_lit binary64 1697.9999999993597 = ?T"
    by (simp add: binary64_ops rounding_facts)
  have res: "d_lit binary64 0.001 = ?res"
    by (simp add: binary64_ops rounding_facts)
  have i: "fp_secant_init binary64 ?pv ?T = ?s0"
    by (simp add: fp_secant_init_def Let_def binary64_ops rounding_facts binary64_pv_first_seed binary64_pv_second_seed)
  have "fp_secant_while binary64 ?pv ?T ?res 10 ?s0 = fp_secant_while binary64 ?pv ?T ?res 10 ?s1"
    by (rule trans [OF fp_secant_while_step [where x' = "- 999"]])
       (simp_all add: fp_ABS_def binary64_ops rounding_facts binary64_pv_neg999)
  also have "\<dots> = Fp_loop_end ?s1"
    by (rule fp_secant_while_end) (simp add: fp_ABS_def binary64_ops rounding_facts)
  finally have s: "fp_secant_solve binary64 ?pv ?T ?res 10 = Fp_x_n (- 999)"
    by (simp add: fp_secant_solve_def i)
  have f: "d_sub binary64 ?T (?pv (- 999)) = - (2815 / 2 ^ 42)"
    by (simp add: binary64_ops rounding_facts binary64_pv_neg999)
  have t: "d_le binary64 (fp_ABS binary64 (d_sub binary64 ?T (?pv (- 999)))) ?res"
    unfolding f by (simp add: fp_ABS_def binary64_ops rounding_facts)
  have c: "fp_copy_cf binary64 [- 1693703, 899198] [365, 730] [0, 0] 2 0 0 [] [] []
      = Inr ([- 1693703, 899198], [365, 730], [0, 0])"
    by (simp add: fp_copy_cf.simps fp_ary_entry_def binary64_ops rounding_facts)
  have w: "fp_backsolve_cf binary64 [- 1693703, 899198] [365, 730] [0, 0] 2 ?T ?res 10
      False 0 365 = Fp_raise (ZeroDivError zero_div_message)"
    by (simp add: fp_backsolve_cf_def c fp_backsolve_cf_core_def s fp_result_of_double_def
        binary64_ops rounding_facts)
  from sentinels_compare_binary64 s f t w show ?thesis
    unfolding T res by (intro conjI)
qed

end
